theory Spec2Isabelle
  imports Main "HOL-Library.Word" "HOL-Library.Signed_Division" "HOL-Library.AList"
begin

section \<open>Machine types and device calls\<close>

text \<open>
  Go's fixed-width integers are words; \<open>int32\<close> and \<open>uint32\<close> share the bit pattern and
  differ in how comparison and remainder read it.  A \<open>float32\<close> is carried as its 32 bits:
  the code only passes such values on to the device.  A Go \<open>string\<close> is a byte sequence,
  here a \<open>char list\<close>.  A pointer that is only handed to the device is its address.
\<close>

type_synonym uint8 = "8 word"
type_synonym uint32 = "32 word"
type_synonym int32 = "32 word"
type_synonym float32 = "32 word"
type_synonym goint = "64 word"
type_synonym addr = nat

text \<open>Go's \<open>%\<close> on \<open>int32\<close>: the remainder has the sign of the dividend.\<close>

definition rem_int32 :: "int32 \<Rightarrow> int32 \<Rightarrow> int32" where
  "rem_int32 a b = word_of_int (sint a smod sint b)"

text \<open>
  The commands sent to the device (package \<open>gl\<close>), in the order they are issued.
  Queries that only return a value are inputs of the model, not entries of the trace.
\<close>

datatype gl_call =
    gl_BindFramebuffer uint32 uint32
  | gl_FramebufferTexture2D uint32 uint32 uint32 uint32 int32
  | gl_UseProgram uint32
  | gl_Enable uint32
  | gl_Disable uint32
  | gl_BlendFunc uint32 uint32
  | gl_CullFace uint32
  | gl_DepthMask bool
  | gl_DepthFunc uint32
  | gl_Viewport int32 int32 int32 int32
  | gl_Uniform1i int32 int32
  | gl_Uniform1ui int32 uint32
  | gl_Uniform1f int32 float32
  | gl_Uniform1iv int32 int32 addr
  | gl_Uniform1uiv int32 int32 addr
  | gl_Uniform1fv int32 int32 addr
  | gl_Uniform2fv int32 int32 addr
  | gl_Uniform3fv int32 int32 addr
  | gl_Uniform4fv int32 int32 addr
  | gl_UniformMatrix3fv int32 int32 bool addr
  | gl_UniformMatrix4fv int32 int32 bool addr
  | gl_UniformBlockBinding uint32 uint32 uint32
  | gl_ActiveTexture uint32
  | gl_BindTexture uint32 uint32
  | gl_BindVertexArray uint32
  | gl_DrawElements uint32 int32 uint32 goint
  | gl_DrawElementsInstanced uint32 int32 uint32 goint int32
  | gl_DrawArrays uint32 int32 int32
  | gl_DrawArraysInstanced uint32 int32 int32 int32

text \<open>The enumerants of the OpenGL 4.1 core profile that the code names (\<open>gl.INT\<close> is
  \<open>GL_INT\<close>, and so on).\<close>

definition GL_FRAMEBUFFER :: uint32 where "GL_FRAMEBUFFER = 0x8D40"
definition GL_TEXTURE_2D :: uint32 where "GL_TEXTURE_2D = 0x0DE1"

definition GL_SAMPLER_2D :: uint32 where "GL_SAMPLER_2D = 0x8B5E"
definition GL_SAMPLER_CUBE :: uint32 where "GL_SAMPLER_CUBE = 0x8B60"
definition GL_INT :: uint32 where "GL_INT = 0x1404"
definition GL_UNSIGNED_INT :: uint32 where "GL_UNSIGNED_INT = 0x1405"
definition GL_FLOAT :: uint32 where "GL_FLOAT = 0x1406"
definition GL_FLOAT_VEC2 :: uint32 where "GL_FLOAT_VEC2 = 0x8B50"
definition GL_FLOAT_VEC3 :: uint32 where "GL_FLOAT_VEC3 = 0x8B51"
definition GL_FLOAT_VEC4 :: uint32 where "GL_FLOAT_VEC4 = 0x8B52"
definition GL_FLOAT_MAT3 :: uint32 where "GL_FLOAT_MAT3 = 0x8B5B"
definition GL_FLOAT_MAT4 :: uint32 where "GL_FLOAT_MAT4 = 0x8B5C"


lemmas uniform_type_defs =
  GL_SAMPLER_2D_def GL_SAMPLER_CUBE_def GL_INT_def GL_UNSIGNED_INT_def GL_FLOAT_def GL_FLOAT_VEC2_def
  GL_FLOAT_VEC3_def GL_FLOAT_VEC4_def GL_FLOAT_MAT3_def GL_FLOAT_MAT4_def


section \<open>Dynamic values and errors\<close>

text \<open>
  An \<open>interface{}\<close> argument is a value together with its dynamic type.  The type
  assertions of the uniform setters tell six types apart; every other dynamic type,
  and the nil interface, is \<open>VOther\<close> with a description.
\<close>

datatype go_value =
    VInt32 int32
  | VUint32 uint32
  | VFloat32 float32
  | VPtrInt32 addr
  | VPtrUint32 addr
  | VPtrFloat32 addr
  | VOther string

text \<open>
  The errors built with \<open>fmt.Errorf\<close>, one constructor per format string:
  \<open>NotOfType arg T\<close> is "arg is not of type T", \<open>UniformNotRecognized\<close> is
  "uniform `name` was not recognized", \<open>NameNotInBlock\<close> is "name `name` not recognizied
  in the block", \<open>TextureAlreadyAttached\<close> is "texture already attached to attachment `n`",
  and the rest are the messages of \<open>checkAttachmentError\<close>.
\<close>

datatype error =
    NotOfType go_value string
  | UniformNotRecognized string
  | NameNotInBlock string
  | TextureAlreadyAttached uint32
  | DefaultFramebufferMissing
  | AttachmentPointsIncomplete
  | NoImageAttached
  | DrawBufferAttachmentNone
  | ReadBufferAttachmentNone
  | FormatCombinationUnsupported
  | SampleCountsDiffer
  | LayeredAttachmentsDiffer
  | UnrecognizedFramebufferError

text \<open>How a call ended: it returned, or the Go runtime panicked part-way.\<close>

datatype 'a outcome = Returned 'a | Panicked

section \<open>Uniform descriptors\<close>

record UniformDescriptor =
  Name :: string
  Type :: uint32
  Count :: int32
  Location :: int32

record UniformBlockDescriptor =
  Name :: string
  Index :: uint32
  Size :: int32
  Offsets :: "string \<rightharpoonup> int32"
  Alignment :: int32

text \<open>
  \<open>AlignedSize\<close>: \<open>u.Size + u.Alignment - (u.Size % u.Alignment)\<close> on \<open>int32\<close>, wrapping.
  A zero alignment makes \<open>%\<close> panic (integer divide by zero): \<open>None\<close>.
\<close>

definition AlignedSize :: "UniformBlockDescriptor \<Rightarrow> int32 option" where
  "AlignedSize u =
     (if Alignment u = 0 then None
      else Some (Size u + Alignment u - rem_int32 (Size u) (Alignment u)))"

definition UnAlignedSize :: "UniformBlockDescriptor \<Rightarrow> int32" where
  "UnAlignedSize u = Size u"

definition Offset :: "UniformBlockDescriptor \<Rightarrow> string \<Rightarrow> int32 \<times> error option" where
  "Offset u name =
     (case Offsets u name of
        None \<Rightarrow> (- 1, Some (NameNotInBlock name))
      | Some offset \<Rightarrow> (offset, None))"

section \<open>The uniform binder\<close>

record Shader =
  id :: uint32
  shaders :: "uint32 list option"
  descriptors :: "string \<rightharpoonup> UniformDescriptor"
  blockDescriptors :: "string \<rightharpoonup> UniformBlockDescriptor"

text \<open>
  Each setter returns its error (\<open>None\<close> is Go's nil) and the device calls it issued.
\<close>

definition SetUniform1i :: "int32 \<Rightarrow> go_value \<Rightarrow> error option \<times> gl_call list" where
  "SetUniform1i location arg =
     (case arg of
        VInt32 v \<Rightarrow> (None, [gl_Uniform1i location v])
      | _ \<Rightarrow> (Some (NotOfType arg ''int32''), []))"

definition SetUniform1ui :: "int32 \<Rightarrow> go_value \<Rightarrow> error option \<times> gl_call list" where
  "SetUniform1ui location arg =
     (case arg of
        VUint32 v \<Rightarrow> (None, [gl_Uniform1ui location v])
      | _ \<Rightarrow> (Some (NotOfType arg ''uint32''), []))"

definition SetUniform1f :: "int32 \<Rightarrow> go_value \<Rightarrow> error option \<times> gl_call list" where
  "SetUniform1f location arg =
     (case arg of
        VFloat32 v \<Rightarrow> (None, [gl_Uniform1f location v])
      | _ \<Rightarrow> (Some (NotOfType arg ''float32''), []))"

definition SetUniform1iv :: "int32 \<Rightarrow> int32 \<Rightarrow> go_value \<Rightarrow> error option \<times> gl_call list" where
  "SetUniform1iv location count arg =
     (case arg of
        VPtrInt32 p \<Rightarrow> (None, [gl_Uniform1iv location count p])
      | _ \<Rightarrow> (Some (NotOfType arg ''*int32''), []))"

definition SetUniform1uiv :: "int32 \<Rightarrow> int32 \<Rightarrow> go_value \<Rightarrow> error option \<times> gl_call list" where
  "SetUniform1uiv location count arg =
     (case arg of
        VPtrUint32 p \<Rightarrow> (None, [gl_Uniform1uiv location count p])
      | _ \<Rightarrow> (Some (NotOfType arg ''*uint32''), []))"

definition SetUniform1fv :: "int32 \<Rightarrow> int32 \<Rightarrow> go_value \<Rightarrow> error option \<times> gl_call list" where
  "SetUniform1fv location count arg =
     (case arg of
        VPtrFloat32 p \<Rightarrow> (None, [gl_Uniform1fv location count p])
      | _ \<Rightarrow> (Some (NotOfType arg ''*float32''), []))"

definition SetUniform2fv :: "int32 \<Rightarrow> int32 \<Rightarrow> go_value \<Rightarrow> error option \<times> gl_call list" where
  "SetUniform2fv location count arg =
     (case arg of
        VPtrFloat32 p \<Rightarrow> (None, [gl_Uniform2fv location count p])
      | _ \<Rightarrow> (Some (NotOfType arg ''*float32''), []))"

definition SetUniform3fv :: "int32 \<Rightarrow> int32 \<Rightarrow> go_value \<Rightarrow> error option \<times> gl_call list" where
  "SetUniform3fv location count arg =
     (case arg of
        VPtrFloat32 p \<Rightarrow> (None, [gl_Uniform3fv location count p])
      | _ \<Rightarrow> (Some (NotOfType arg ''*float32''), []))"

definition SetUniform4fv :: "int32 \<Rightarrow> int32 \<Rightarrow> go_value \<Rightarrow> error option \<times> gl_call list" where
  "SetUniform4fv location count arg =
     (case arg of
        VPtrFloat32 p \<Rightarrow> (None, [gl_Uniform4fv location count p])
      | _ \<Rightarrow> (Some (NotOfType arg ''*float32''), []))"

definition SetUniformMatrix3fv ::
  "int32 \<Rightarrow> int32 \<Rightarrow> go_value \<Rightarrow> error option \<times> gl_call list" where
  "SetUniformMatrix3fv location count arg =
     (case arg of
        VPtrFloat32 p \<Rightarrow> (None, [gl_UniformMatrix3fv location count False p])
      | _ \<Rightarrow> (Some (NotOfType arg ''*float32''), []))"

definition SetUniformMatrix4fv ::
  "int32 \<Rightarrow> int32 \<Rightarrow> go_value \<Rightarrow> error option \<times> gl_call list" where
  "SetUniformMatrix4fv location count arg =
     (case arg of
        VPtrFloat32 p \<Rightarrow> (None, [gl_UniformMatrix4fv location count False p])
      | _ \<Rightarrow> (Some (NotOfType arg ''*float32''), []))"

text \<open>
  \<open>SetUniform\<close>: the lookup in \<open>s.descriptors\<close>, then the \<open>switch\<close> on the descriptor's
  type in the order of its cases; a type outside the cases falls through to \<open>return nil\<close>.
\<close>

definition SetUniform :: "Shader \<Rightarrow> string \<Rightarrow> go_value \<Rightarrow> error option \<times> gl_call list" where
  "SetUniform s name arg =
     (case descriptors s name of
        None \<Rightarrow> (Some (UniformNotRecognized name), [])
      | Some descriptor \<Rightarrow>
          if Type descriptor = GL_SAMPLER_2D then SetUniform1i (Location descriptor) arg
          else if Type descriptor = GL_SAMPLER_CUBE then SetUniform1i (Location descriptor) arg
          else if Type descriptor = GL_INT then
            (if 1 <s Count descriptor
             then SetUniform1iv (Location descriptor) (Count descriptor) arg
             else SetUniform1i (Location descriptor) arg)
          else if Type descriptor = GL_UNSIGNED_INT then
            (if 1 <s Count descriptor
             then SetUniform1uiv (Location descriptor) (Count descriptor) arg
             else SetUniform1ui (Location descriptor) arg)
          else if Type descriptor = GL_FLOAT then
            (if 1 <s Count descriptor
             then SetUniform1fv (Location descriptor) (Count descriptor) arg
             else SetUniform1f (Location descriptor) arg)
          else if Type descriptor = GL_FLOAT_VEC2 then
            SetUniform2fv (Location descriptor) (Count descriptor) arg
          else if Type descriptor = GL_FLOAT_VEC3 then
            SetUniform3fv (Location descriptor) (Count descriptor) arg
          else if Type descriptor = GL_FLOAT_VEC4 then
            SetUniform4fv (Location descriptor) (Count descriptor) arg
          else if Type descriptor = GL_FLOAT_MAT3 then
            SetUniformMatrix3fv (Location descriptor) (Count descriptor) arg
          else if Type descriptor = GL_FLOAT_MAT4 then
            SetUniformMatrix4fv (Location descriptor) (Count descriptor) arg
          else (None, []))"

section \<open>Resources\<close>

text \<open>
  A Go pointer that may be nil is an \<open>option\<close>: \<open>None\<close> is nil, and reading a field
  through nil is a panic.  Where the code compares two pointers for identity the
  pointer is an address into a heap.
\<close>

record Texture =
  id :: uint32
  width :: uint32
  height :: uint32
  format :: uint32
  internalFormat :: int32
  typ' :: uint32

text \<open>\<open>(*Texture).Bind\<close>: the unit is activated before \<open>t.id\<close> is read.\<close>

definition Texture_Bind :: "Texture option \<Rightarrow> uint32 \<Rightarrow> gl_call list \<times> unit outcome" where
  "Texture_Bind t location =
     (case t of
        None \<Rightarrow> ([gl_ActiveTexture location], Panicked)
      | Some tex \<Rightarrow>
          ([gl_ActiveTexture location, gl_BindTexture GL_TEXTURE_2D (Texture.id tex)],
           Returned ()))"

text \<open>
  \<open>FrameBuffer.textures\<close> is a map that \<open>NewFrameBuffer\<close> allocates; in a zero-value
  \<open>FrameBuffer\<close> it is the nil map (\<open>None\<close>), which reads as empty and panics on a write.
\<close>

record FrameBuffer =
  id :: uint32
  textures :: "(uint32 \<rightharpoonup> Texture) option"

definition FrameBuffer_Bind :: "FrameBuffer \<Rightarrow> gl_call list" where
  "FrameBuffer_Bind f = [gl_BindFramebuffer GL_FRAMEBUFFER (FrameBuffer.id f)]"

text \<open>\<open>Unbind\<close> reads no field of its receiver, so it also runs on any pointer.\<close>

definition FrameBuffer_Unbind :: "gl_call list" where
  "FrameBuffer_Unbind = [gl_BindFramebuffer GL_FRAMEBUFFER 0]"




record VertexBuffer =
  id :: uint32

record IndexBuffer =
  id :: uint32

text \<open>
  \<open>Renderable\<close> without its two attribute maps, which only \<open>Upload\<close> reads.
\<close>

record Renderable =
  id :: uint32
  vertexbuffer :: "VertexBuffer option"
  indexbuffer :: "IndexBuffer option"
  mode :: uint32
  count :: int32
  first :: int32
  typ' :: uint32
  byteOffset :: goint
  primcount :: int32

definition Renderable_Bind :: "Renderable \<Rightarrow> gl_call list" where
  "Renderable_Bind r = [gl_BindVertexArray (Renderable.id r)]"

definition Renderable_Unbind :: "Renderable \<Rightarrow> gl_call list" where
  "Renderable_Unbind r = [gl_BindVertexArray 0]"

text \<open>
  \<open>Draw\<close>: the draw methods of both buffers read no field of their receiver, so a nil
  vertex buffer does not panic.
\<close>

definition Renderable_Draw :: "Renderable \<Rightarrow> gl_call list" where
  "Renderable_Draw r =
     (if indexbuffer r \<noteq> None then
        (if 0 <s primcount r
         then [gl_DrawElementsInstanced (mode r) (count r) (typ' r) (byteOffset r)
                 (primcount r)]
         else [gl_DrawElements (mode r) (count r) (typ' r) (byteOffset r)])
      else
        (if 0 <s primcount r
         then [gl_DrawArraysInstanced (mode r) (first r) (count r) (primcount r)]
         else [gl_DrawArrays (mode r) (first r) (count r)]))"

section \<open>Commands\<close>

text \<open>
  The two maps of a \<open>Command\<close> are association lists: \<open>range\<close> visits each key once, in
  an order Go leaves open, and the list order stands for the order of one run.  The nil
  map is the empty list.
\<close>

record Command =
  uniforms :: "(string \<times> go_value) list"
  textures :: "(uint32 \<times> Texture option) list"
  renderable :: "Renderable option"

definition Command_Uniform :: "Command \<Rightarrow> string \<Rightarrow> go_value \<Rightarrow> Command" where
  "Command_Uniform c name v = c\<lparr>uniforms := AList.update name v (uniforms c)\<rparr>"

definition Command_Texture :: "Command \<Rightarrow> uint32 \<Rightarrow> Texture option \<Rightarrow> Command" where
  "Command_Texture c location texture =
     c\<lparr>Command.textures := AList.update location texture (Command.textures c)\<rparr>"

definition Command_Renderable :: "Command \<Rightarrow> Renderable option \<Rightarrow> Command" where
  "Command_Renderable c r = c\<lparr>renderable := r\<rparr>"

fun bind_textures :: "(uint32 \<times> Texture option) list \<Rightarrow> gl_call list \<times> unit outcome" where
  "bind_textures [] = ([], Returned ())"
| "bind_textures ((location, texture) # rest) =
     (case Texture_Bind texture location of
        (cs, Panicked) \<Rightarrow> (cs, Panicked)
      | (cs, Returned _) \<Rightarrow> (case bind_textures rest of (cs', r) \<Rightarrow> (cs @ cs', r)))"

text \<open>
  The loop over the uniforms drops the error of \<open>SetUniform\<close>.  With a nil shader the
  first \<open>SetUniform\<close> panics at \<open>s.descriptors\<close>.
\<close>

fun set_uniforms :: "Shader option \<Rightarrow> (string \<times> go_value) list \<Rightarrow> gl_call list \<times> unit outcome" where
  "set_uniforms shader [] = ([], Returned ())"
| "set_uniforms None ((name, v) # rest) = ([], Panicked)"
| "set_uniforms (Some s) ((name, v) # rest) =
     (case set_uniforms (Some s) rest of (cs', r) \<Rightarrow> (snd (SetUniform s name v) @ cs', r))"

text \<open>\<open>Execute\<close>: a nil \<open>c.renderable\<close> panics in \<open>Bind\<close>, at \<open>r.id\<close>.\<close>

definition Execute :: "Command \<Rightarrow> Shader option \<Rightarrow> gl_call list \<times> unit outcome" where
  "Execute c shader =
     (case bind_textures (Command.textures c) of
        (cs1, Panicked) \<Rightarrow> (cs1, Panicked)
      | (cs1, Returned _) \<Rightarrow>
          (case set_uniforms shader (uniforms c) of
             (cs2, Panicked) \<Rightarrow> (cs1 @ cs2, Panicked)
           | (cs2, Returned _) \<Rightarrow>
               (case renderable c of
                  None \<Rightarrow> (cs1 @ cs2, Panicked)
                | Some r \<Rightarrow>
                    (cs1 @ cs2 @ Renderable_Bind r @ Renderable_Draw r @ Renderable_Unbind r,
                     Returned ()))))"

section \<open>Techniques and the render state cache\<close>

record blendFunc =
  sfactor :: uint32
  dfactor :: uint32

record cullFace =
  mode :: uint32

record depthMask =
  flag :: bool

record depthFunc =
  xfunc :: uint32

record Viewport =
  X :: int32
  Y :: int32
  Width :: int32
  Height :: int32

text \<open>The \<open>Equals\<close> methods: a nil \<open>other\<close> is unequal to everything.\<close>

definition blendFunc_Equals :: "blendFunc \<Rightarrow> blendFunc option \<Rightarrow> bool" where
  "blendFunc_Equals b other =
     (case other of
        None \<Rightarrow> False
      | Some other \<Rightarrow> sfactor b = sfactor other \<and> dfactor b = dfactor other)"

definition cullFace_Equals :: "cullFace \<Rightarrow> cullFace option \<Rightarrow> bool" where
  "cullFace_Equals c other =
     (case other of None \<Rightarrow> False | Some other \<Rightarrow> cullFace.mode c = cullFace.mode other)"

definition depthMask_Equals :: "depthMask \<Rightarrow> depthMask option \<Rightarrow> bool" where
  "depthMask_Equals d other =
     (case other of None \<Rightarrow> False | Some other \<Rightarrow> flag d = flag other)"

definition depthFunc_Equals :: "depthFunc \<Rightarrow> depthFunc option \<Rightarrow> bool" where
  "depthFunc_Equals d other =
     (case other of None \<Rightarrow> False | Some other \<Rightarrow> xfunc d = xfunc other)"

definition Viewport_Equals :: "Viewport \<Rightarrow> Viewport option \<Rightarrow> bool" where
  "Viewport_Equals v other =
     (case other of
        None \<Rightarrow> False
      | Some other \<Rightarrow>
          X v = X other \<and> Y v = Y other \<and> Width v = Width other \<and> Height v = Height other)"

text \<open>
  A \<open>Technique\<close>.  The shader and the framebuffer are compared by pointer, so they are
  addresses; the state structs are only compared by \<open>Equals\<close> and never written through
  their pointer, so they are values.  The clear colour is its four components.
\<close>

record Technique =
  enables :: "uint32 list"
  shader :: "addr option"
  viewport :: "Viewport option"
  framebuffer :: "addr option"
  blendFunc :: "blendFunc option"
  cullFace :: "cullFace option"
  depthMask :: "depthMask option"
  depthFunc :: "depthFunc option"
  clearColor :: "(float32 \<times> float32 \<times> float32 \<times> float32) option"

definition GL_ONE :: uint32 where "GL_ONE = 1"
definition GL_ZERO :: uint32 where "GL_ZERO = 0"
definition GL_BACK :: uint32 where "GL_BACK = 0x0405"
definition GL_LESS :: uint32 where "GL_LESS = 0x0201"

definition NewTechnique :: Technique where
  "NewTechnique =
     \<lparr>enables = [], shader = None, viewport = None, framebuffer = None,
      blendFunc = Some \<lparr>sfactor = GL_ONE, dfactor = GL_ZERO\<rparr>,
      cullFace = Some \<lparr>cullFace.mode = GL_BACK\<rparr>,
      depthMask = Some \<lparr>flag = True\<rparr>,
      depthFunc = Some \<lparr>xfunc = GL_LESS\<rparr>,
      clearColor = None\<rparr>"

definition Enable :: "Technique \<Rightarrow> uint32 \<Rightarrow> Technique" where
  "Enable t enable = t\<lparr>enables := enables t @ [enable]\<rparr>"

text \<open>The objects behind the shader and framebuffer pointers.\<close>

record heap =
  shader_at :: "addr \<Rightarrow> Shader"
  framebuffer_at :: "addr \<Rightarrow> FrameBuffer"

text \<open>
  The package variables \<open>prev...\<close>: the snapshot of the device state.  \<open>prevEnables\<close> is
  a \<open>map[uint32]bool\<close>, an association list here; reading an absent key gives \<open>false\<close>.
\<close>

record snapshot =
  prevBlendFunc :: "blendFunc option"
  prevCullFace :: "cullFace option"
  prevDepthMask :: "depthMask option"
  prevDepthFunc :: "depthFunc option"
  prevViewport :: "Viewport option"
  prevShader :: "addr option"
  prevFrameBuffer :: "addr option"
  prevEnables :: "(uint32 \<times> bool) list"

definition initial_snapshot :: snapshot where
  "initial_snapshot =
     \<lparr>prevBlendFunc = None, prevCullFace = None, prevDepthMask = None, prevDepthFunc = None,
      prevViewport = None, prevShader = None, prevFrameBuffer = None, prevEnables = []\<rparr>"

definition index_bool :: "(uint32 \<times> bool) list \<Rightarrow> uint32 \<Rightarrow> bool" where
  "index_bool m k = (case map_of m k of None \<Rightarrow> False | Some b \<Rightarrow> b)"

text \<open>The section "bind framebuffer" of \<open>Technique_setup\<close>.\<close>

definition setup_framebuffer :: "heap \<Rightarrow> Technique \<Rightarrow> snapshot \<Rightarrow> gl_call list \<times> snapshot" where
  "setup_framebuffer h t p =
     (let cs1 = (if framebuffer t = None \<and> prevFrameBuffer p \<noteq> None
                 then FrameBuffer_Unbind else [])
      in case framebuffer t of
           None \<Rightarrow> (cs1, p)
         | Some a \<Rightarrow>
             if framebuffer t \<noteq> prevFrameBuffer p
             then (cs1 @ FrameBuffer_Bind (framebuffer_at h a), p\<lparr>prevFrameBuffer := framebuffer t\<rparr>)
             else (cs1, p))"

text \<open>The section "use shader": \<open>Use\<close> reads \<open>s.id\<close>, a panic on a nil shader.\<close>

definition setup_shader ::
  "heap \<Rightarrow> Technique \<Rightarrow> snapshot \<Rightarrow> gl_call list \<times> snapshot \<times> unit outcome" where
  "setup_shader h t p =
     (if prevShader p \<noteq> shader t then
        (case shader t of
           None \<Rightarrow> ([], p, Panicked)
         | Some a \<Rightarrow>
             ([gl_UseProgram (Shader.id (shader_at h a))], p\<lparr>prevShader := shader t\<rparr>,
              Returned ()))
      else ([], p, Returned ()))"

text \<open>\<open>staleEnables\<close>: one entry per key of \<open>prevEnables\<close>.\<close>

definition stale_of :: "(uint32 \<times> bool) list \<Rightarrow> (uint32 \<times> bool) list" where
  "stale_of prev = fold (\<lambda>state stale. AList.update state True stale) (map fst prev) []"

text \<open>The loop "enable state", over \<open>t.enables\<close>; it threads \<open>prevEnables\<close> and \<open>staleEnables\<close>.\<close>

fun enable_loop ::
  "uint32 list \<Rightarrow> (uint32 \<times> bool) list \<Rightarrow> (uint32 \<times> bool) list \<Rightarrow>
     gl_call list \<times> (uint32 \<times> bool) list \<times> (uint32 \<times> bool) list" where
  "enable_loop [] prev stale = ([], prev, stale)"
| "enable_loop (state # rest) prev stale =
     (if \<not> index_bool prev state
      then (case enable_loop rest (AList.update state True prev) (AList.delete state stale) of
              (cs, prev', stale') \<Rightarrow> (gl_Enable state # cs, prev', stale'))
      else enable_loop rest prev (AList.delete state stale))"

text \<open>The loop "disable stale state", over the keys left in \<open>staleEnables\<close>.\<close>

fun disable_loop ::
  "uint32 list \<Rightarrow> (uint32 \<times> bool) list \<Rightarrow> gl_call list \<times> (uint32 \<times> bool) list" where
  "disable_loop [] prev = ([], prev)"
| "disable_loop (state # rest) prev =
     (case disable_loop rest (AList.delete state prev) of
        (cs, prev') \<Rightarrow> (gl_Disable state # cs, prev'))"

definition setup_enables :: "Technique \<Rightarrow> snapshot \<Rightarrow> gl_call list \<times> snapshot" where
  "setup_enables t p =
     (case enable_loop (enables t) (prevEnables p) (stale_of (prevEnables p)) of
        (cs1, prev1, stale) \<Rightarrow>
          (case disable_loop (map fst stale) prev1 of
             (cs2, prev2) \<Rightarrow> (cs1 @ cs2, p\<lparr>prevEnables := prev2\<rparr>)))"

text \<open>The section "update state functions", one definition per \<open>if\<close>.\<close>

definition setup_blendFunc :: "Technique \<Rightarrow> snapshot \<Rightarrow> gl_call list \<times> snapshot" where
  "setup_blendFunc t p =
     (case blendFunc t of
        None \<Rightarrow> ([], p)
      | Some b \<Rightarrow>
          if \<not> blendFunc_Equals b (prevBlendFunc p)
          then ([gl_BlendFunc (sfactor b) (dfactor b)], p\<lparr>prevBlendFunc := blendFunc t\<rparr>)
          else ([], p))"

definition setup_cullFace :: "Technique \<Rightarrow> snapshot \<Rightarrow> gl_call list \<times> snapshot" where
  "setup_cullFace t p =
     (case cullFace t of
        None \<Rightarrow> ([], p)
      | Some c \<Rightarrow>
          if \<not> cullFace_Equals c (prevCullFace p)
          then ([gl_CullFace (cullFace.mode c)], p\<lparr>prevCullFace := cullFace t\<rparr>)
          else ([], p))"

definition setup_depthMask :: "Technique \<Rightarrow> snapshot \<Rightarrow> gl_call list \<times> snapshot" where
  "setup_depthMask t p =
     (case depthMask t of
        None \<Rightarrow> ([], p)
      | Some d \<Rightarrow>
          if \<not> depthMask_Equals d (prevDepthMask p)
          then ([gl_DepthMask (flag d)], p\<lparr>prevDepthMask := depthMask t\<rparr>)
          else ([], p))"

definition setup_depthFunc :: "Technique \<Rightarrow> snapshot \<Rightarrow> gl_call list \<times> snapshot" where
  "setup_depthFunc t p =
     (case depthFunc t of
        None \<Rightarrow> ([], p)
      | Some d \<Rightarrow>
          if \<not> depthFunc_Equals d (prevDepthFunc p)
          then ([gl_DepthFunc (xfunc d)], p\<lparr>prevDepthFunc := depthFunc t\<rparr>)
          else ([], p))"

text \<open>The section "update viewport".\<close>

definition setup_viewport :: "Technique \<Rightarrow> snapshot \<Rightarrow> gl_call list \<times> snapshot" where
  "setup_viewport t p =
     (case viewport t of
        None \<Rightarrow> ([], p)
      | Some v \<Rightarrow>
          if \<not> Viewport_Equals v (prevViewport p)
          then ([gl_Viewport (X v) (Y v) (Width v) (Height v)], p\<lparr>prevViewport := viewport t\<rparr>)
          else ([], p))"

text \<open>
  \<open>Technique_setup\<close>: the sections in the order of the source.  It returns the device calls, the
  snapshot afterwards and how the call ended; after a panic in "use shader" nothing
  more runs.
\<close>

definition Technique_setup ::
  "heap \<Rightarrow> Technique \<Rightarrow> snapshot \<Rightarrow> gl_call list \<times> snapshot \<times> unit outcome" where
  "Technique_setup h t p =
     (case setup_framebuffer h t p of
        (cs1, p1) \<Rightarrow>
          (case setup_shader h t p1 of
             (cs2, p2, Panicked) \<Rightarrow> (cs1 @ cs2, p2, Panicked)
           | (cs2, p2, Returned _) \<Rightarrow>
               (case setup_enables t p2 of
                  (cs3, p3) \<Rightarrow>
                    (case setup_blendFunc t p3 of
                       (cs4, p4) \<Rightarrow>
                         (case setup_cullFace t p4 of
                            (cs5, p5) \<Rightarrow>
                              (case setup_depthMask t p5 of
                                 (cs6, p6) \<Rightarrow>
                                   (case setup_depthFunc t p6 of
                                      (cs7, p7) \<Rightarrow>
                                        (case setup_viewport t p7 of
                                           (cs8, p8) \<Rightarrow>
                                             (cs1 @ cs2 @ cs3 @ cs4 @ cs5 @ cs6 @ cs7 @ cs8,
                                              p8, Returned ())))))))))"

text \<open>\<open>Draw\<close>: \<open>Technique_setup\<close> once, then every command in order, against \<open>t.shader\<close>.\<close>

fun execute_all :: "Shader option \<Rightarrow> Command list \<Rightarrow> gl_call list \<times> unit outcome" where
  "execute_all s [] = ([], Returned ())"
| "execute_all s (command # rest) =
     (case Execute command s of
        (cs, Panicked) \<Rightarrow> (cs, Panicked)
      | (cs, Returned _) \<Rightarrow> (case execute_all s rest of (cs', r) \<Rightarrow> (cs @ cs', r)))"

definition Draw ::
  "heap \<Rightarrow> Technique \<Rightarrow> Command list \<Rightarrow> snapshot \<Rightarrow> gl_call list \<times> snapshot \<times> unit outcome" where
  "Draw h t commands p =
     (case Technique_setup h t p of
        (cs, p', Panicked) \<Rightarrow> (cs, p', Panicked)
      | (cs, p', Returned _) \<Rightarrow>
          (case execute_all (map_option (shader_at h) (shader t)) commands of
             (cs', r) \<Rightarrow> (cs @ cs', p', r)))"

text \<open>
  A snapshot is settled for a technique when it already agrees with the technique in
  every attribute that the cache compares.
\<close>

definition settled :: "Technique \<Rightarrow> snapshot \<Rightarrow> bool" where
  "settled t p \<longleftrightarrow>
     prevFrameBuffer p = framebuffer t \<and>
     prevShader p = shader t \<and>
     list_all (index_bool (prevEnables p)) (enables t) \<and>
     fst ` set (prevEnables p) \<subseteq> set (enables t) \<and>
     (case blendFunc t of None \<Rightarrow> True | Some b \<Rightarrow> blendFunc_Equals b (prevBlendFunc p)) \<and>
     (case cullFace t of None \<Rightarrow> True | Some c \<Rightarrow> cullFace_Equals c (prevCullFace p)) \<and>
     (case depthMask t of None \<Rightarrow> True | Some d \<Rightarrow> depthMask_Equals d (prevDepthMask p)) \<and>
     (case depthFunc t of None \<Rightarrow> True | Some d \<Rightarrow> depthFunc_Equals d (prevDepthFunc p)) \<and>
     (case viewport t of None \<Rightarrow> True | Some v \<Rightarrow> Viewport_Equals v (prevViewport p))"

subsection \<open>Buildable techniques and reachable snapshots\<close>

text \<open>
  The techniques a caller can build: the zero value \<open>Technique{}\<close> or \<open>NewTechnique()\<close>,
  changed by the exported methods.  \<open>Shader\<close> and \<open>Viewport\<close> take a pointer, which may be
  nil.  No method assigns the \<open>framebuffer\<close> field.
\<close>

definition zero_Technique :: Technique where
  "zero_Technique =
     \<lparr>enables = [], shader = None, viewport = None, framebuffer = None, blendFunc = None,
      cullFace = None, depthMask = None, depthFunc = None, clearColor = None\<rparr>"

definition Technique_Shader :: "Technique \<Rightarrow> addr option \<Rightarrow> Technique" where
  "Technique_Shader t s = t\<lparr>shader := s\<rparr>"

definition Technique_Viewport :: "Technique \<Rightarrow> Viewport option \<Rightarrow> Technique" where
  "Technique_Viewport t v = t\<lparr>viewport := v\<rparr>"

definition BlendFunc :: "Technique \<Rightarrow> uint32 \<Rightarrow> uint32 \<Rightarrow> Technique" where
  "BlendFunc t s d = t\<lparr>blendFunc := Some \<lparr>sfactor = s, dfactor = d\<rparr>\<rparr>"

definition CullFace :: "Technique \<Rightarrow> uint32 \<Rightarrow> Technique" where
  "CullFace t m = t\<lparr>cullFace := Some \<lparr>cullFace.mode = m\<rparr>\<rparr>"

definition DepthMask :: "Technique \<Rightarrow> bool \<Rightarrow> Technique" where
  "DepthMask t f = t\<lparr>depthMask := Some \<lparr>flag = f\<rparr>\<rparr>"

definition DepthFunc :: "Technique \<Rightarrow> uint32 \<Rightarrow> Technique" where
  "DepthFunc t x = t\<lparr>depthFunc := Some \<lparr>xfunc = x\<rparr>\<rparr>"

definition ClearColor :: "Technique \<Rightarrow> float32 \<Rightarrow> float32 \<Rightarrow> float32 \<Rightarrow> float32 \<Rightarrow> Technique" where
  "ClearColor t r g b a = t\<lparr>clearColor := Some (r, g, b, a)\<rparr>"

inductive buildable :: "Technique \<Rightarrow> bool" where
  zero: "buildable zero_Technique"
| new: "buildable NewTechnique"
| Enable: "buildable t \<Longrightarrow> buildable (Enable t enable)"
| Shader: "buildable t \<Longrightarrow> buildable (Technique_Shader t s)"
| Viewport: "buildable t \<Longrightarrow> buildable (Technique_Viewport t v)"
| BlendFunc: "buildable t \<Longrightarrow> buildable (BlendFunc t s d)"
| CullFace: "buildable t \<Longrightarrow> buildable (CullFace t m)"
| DepthMask: "buildable t \<Longrightarrow> buildable (DepthMask t f)"
| DepthFunc: "buildable t \<Longrightarrow> buildable (DepthFunc t x)"
| ClearColor: "buildable t \<Longrightarrow> buildable (ClearColor t r g b a)"

code_pred buildable .

text \<open>
  The snapshots that can arise: the package variables as initialised, and the snapshot
  left by any run of the cache for a buildable technique, whether it returned or
  panicked.
\<close>

inductive reachable :: "snapshot \<Rightarrow> bool" where
  initial: "reachable initial_snapshot"
| run: "reachable p \<Longrightarrow> buildable t \<Longrightarrow> Technique_setup h t p = (calls, p', r) \<Longrightarrow>
          reachable p'"

section \<open>Program reflection\<close>

text \<open>
  What the device answers about a linked program.  For the uniform at each index:
  the buffer of \<open>UNIFORM_NAME_LENGTH\<close> bytes as \<open>gl.GetActiveUniformName\<close> leaves it
  (the name and its null terminator), and its type, size, block index and offset.
  For each block: its name buffer and data size.  \<open>uniform_location\<close> answers
  \<open>gl.GetUniformLocation\<close>, and \<open>buffer_offset_alignment\<close> is
  \<open>UNIFORM_BUFFER_OFFSET_ALIGNMENT\<close>.
\<close>

record active_uniform =
  name_buf :: "uint8 list"
  uniform_type :: int32
  uniform_size :: int32
  block_index :: int32
  uniform_offset :: int32

record active_block =
  block_name_buf :: "uint8 list"
  data_size :: int32

record program =
  active_uniforms :: "active_uniform list"
  active_blocks :: "active_block list"
  uniform_location :: "string \<Rightarrow> int32"
  buffer_offset_alignment :: int32

text \<open>
  \<open>toString\<close>: the bytes without the last one ("trim null terminator").  The slice
  \<open>b[:len(b)-1]\<close> panics on an empty buffer.
\<close>

definition toString :: "uint8 list \<Rightarrow> string option" where
  "toString buff =
     (if buff = [] then None else Some (map (\<lambda>v. char_of (unat v)) (butlast buff)))"

definition toUint32 :: "int32 list \<Rightarrow> uint32 list" where
  "toUint32 arr = map (\<lambda>val. val) arr"

text \<open>The C string that \<open>gl.Str(name + "\x00")\<close> points to ends at the first null byte.\<close>

definition c_str :: "string \<Rightarrow> string" where
  "c_str name = takeWhile (\<lambda>c. c \<noteq> CHR 0x00) name"

definition queryUniformNames :: "program \<Rightarrow> string list option" where
  "queryUniformNames dev = those (map (\<lambda>u. toString (name_buf u)) (active_uniforms dev))"

definition queryUniformTypes :: "program \<Rightarrow> uint32 list" where
  "queryUniformTypes dev = toUint32 (map uniform_type (active_uniforms dev))"

definition queryUniformCounts :: "program \<Rightarrow> int32 list" where
  "queryUniformCounts dev = map uniform_size (active_uniforms dev)"

definition queryParentBlockIndices :: "program \<Rightarrow> int32 list" where
  "queryParentBlockIndices dev = map block_index (active_uniforms dev)"

definition queryUniformOffsets :: "program \<Rightarrow> int32 list" where
  "queryUniformOffsets dev = map uniform_offset (active_uniforms dev)"

definition queryUniformLocations :: "program \<Rightarrow> string list \<Rightarrow> int32 list" where
  "queryUniformLocations dev names = map (\<lambda>name. uniform_location dev (c_str name)) names"

definition queryUniformBlockNames :: "program \<Rightarrow> string list option" where
  "queryUniformBlockNames dev =
     those (map (\<lambda>b. toString (block_name_buf b)) (active_blocks dev))"

definition queryUniformBlockSizes :: "program \<Rightarrow> int32 list" where
  "queryUniformBlockSizes dev = map data_size (active_blocks dev)"

text \<open>The local slices of \<open>queryUniforms\<close>, all of the length of \<open>uniformIndices\<close>.\<close>

record uniform_info =
  uniformNames :: "string list"
  uniformTypes :: "uint32 list"
  uniformCounts :: "int32 list"
  parentBlockIndices :: "int32 list"
  uniformOffsets :: "int32 list"
  uniformLocations :: "int32 list"

text \<open>
  The loop "for each uniform index".  The slice \<open>name[:len(name)-1]\<close> panics on an
  empty name.
\<close>

fun uniform_loop ::
  "uniform_info \<Rightarrow> nat list \<Rightarrow> (string \<rightharpoonup> UniformDescriptor) \<Rightarrow>
     (string \<rightharpoonup> UniformDescriptor) option" where
  "uniform_loop q [] ds = Some ds"
| "uniform_loop q (index # rest) ds =
     (if parentBlockIndices q ! index = - 1 then
        (let name = uniformNames q ! index
         in if name = [] then None
            else uniform_loop q rest
                   (ds(name \<mapsto>
                      \<lparr>UniformDescriptor.Name = butlast name,
                       Type = uniformTypes q ! index,
                       Count = uniformCounts q ! index,
                       Location = uniformLocations q ! index\<rparr>)))
      else uniform_loop q rest ds)"

text \<open>The inner loop of "for each block": the offsets of the uniforms of block \<open>index\<close>.\<close>

definition block_offsets :: "uniform_info \<Rightarrow> nat \<Rightarrow> (string \<rightharpoonup> int32)" where
  "block_offsets q index =
     fold (\<lambda>i offsets.
             if parentBlockIndices q ! i = of_nat index
             then offsets(uniformNames q ! i \<mapsto> uniformOffsets q ! i)
             else offsets)
       [0..<length (parentBlockIndices q)] Map.empty"

fun block_loop ::
  "uint32 \<Rightarrow> uniform_info \<Rightarrow> string list \<Rightarrow> int32 list \<Rightarrow> int32 \<Rightarrow> nat list \<Rightarrow>
     (string \<rightharpoonup> UniformBlockDescriptor) \<Rightarrow>
     gl_call list \<times> (string \<rightharpoonup> UniformBlockDescriptor)" where
  "block_loop sid q blockNames blockSizes bufferAlignment [] bs = ([], bs)"
| "block_loop sid q blockNames blockSizes bufferAlignment (index # rest) bs =
     (case block_loop sid q blockNames blockSizes bufferAlignment rest
             (bs(blockNames ! index \<mapsto>
                \<lparr>UniformBlockDescriptor.Name = blockNames ! index,
                 Index = of_nat index,
                 Size = blockSizes ! index,
                 Offsets = block_offsets q index,
                 Alignment = bufferAlignment\<rparr>)) of
        (cs, bs') \<Rightarrow> (gl_UniformBlockBinding sid (of_nat index) (of_nat index) # cs, bs'))"

text \<open>
  \<open>queryUniforms\<close>: the shader with both descriptor maps rebuilt and the device calls
  issued, or \<open>None\<close> when one of the slices above panics.
\<close>

definition queryUniforms :: "program \<Rightarrow> Shader \<Rightarrow> (Shader \<times> gl_call list) option" where
  "queryUniforms dev s =
     (case queryUniformNames dev of
        None \<Rightarrow> None
      | Some names \<Rightarrow>
          (let q = \<lparr>uniformNames = names,
                    uniformTypes = queryUniformTypes dev,
                    uniformCounts = queryUniformCounts dev,
                    parentBlockIndices = queryParentBlockIndices dev,
                    uniformOffsets = queryUniformOffsets dev,
                    uniformLocations = queryUniformLocations dev names\<rparr>
           in case uniform_loop q [0..<length (active_uniforms dev)] Map.empty of
                None \<Rightarrow> None
              | Some ds \<Rightarrow>
                  (case queryUniformBlockNames dev of
                     None \<Rightarrow> None
                   | Some blockNames \<Rightarrow>
                       (case block_loop (Shader.id s) q blockNames (queryUniformBlockSizes dev)
                               (buffer_offset_alignment dev)
                               [0..<length (active_blocks dev)] Map.empty of
                          (cs, bs) \<Rightarrow>
                            Some (s\<lparr>descriptors := ds, blockDescriptors := bs\<rparr>, cs)))))"

section \<open>The value shapes of the specification\<close>

text \<open>
  The specification speaks of the "scalar or pointer shape" a dispatch expects.  These
  definitions follow its words, to be compared with \<open>SetUniform\<close>: samplers are bound as
  a scalar int; int, uint and float take the array (pointer) form when the count
  exceeds one and the scalar form otherwise; vectors and matrices always take the array
  form.
\<close>

datatype shape =
  ScalarInt32 | ScalarUint32 | ScalarFloat32 | PointerInt32 | PointerUint32 | PointerFloat32

fun shape_of :: "go_value \<Rightarrow> shape option" where
  "shape_of (VInt32 _) = Some ScalarInt32"
| "shape_of (VUint32 _) = Some ScalarUint32"
| "shape_of (VFloat32 _) = Some ScalarFloat32"
| "shape_of (VPtrInt32 _) = Some PointerInt32"
| "shape_of (VPtrUint32 _) = Some PointerUint32"
| "shape_of (VPtrFloat32 _) = Some PointerFloat32"
| "shape_of (VOther _) = None"

definition expected_shape :: "UniformDescriptor \<Rightarrow> shape option" where
  "expected_shape d =
     (if Type d \<in> {GL_SAMPLER_2D, GL_SAMPLER_CUBE} then Some ScalarInt32
      else if Type d = GL_INT then Some (if 1 <s Count d then PointerInt32 else ScalarInt32)
      else if Type d = GL_UNSIGNED_INT
        then Some (if 1 <s Count d then PointerUint32 else ScalarUint32)
      else if Type d = GL_FLOAT
        then Some (if 1 <s Count d then PointerFloat32 else ScalarFloat32)
      else if Type d \<in> {GL_FLOAT_VEC2, GL_FLOAT_VEC3, GL_FLOAT_VEC4, GL_FLOAT_MAT3, GL_FLOAT_MAT4}
        then Some PointerFloat32
      else None)"

section \<open>Example inputs\<close>

definition example_descriptors :: "string \<rightharpoonup> UniformDescriptor" where
  "example_descriptors =
     [''diffuse'' \<mapsto> \<lparr>UniformDescriptor.Name = ''diffuse'', Type = GL_SAMPLER_2D, Count = 1, Location = 0\<rparr>,
      ''lights'' \<mapsto> \<lparr>UniformDescriptor.Name = ''lights'', Type = GL_INT, Count = 4, Location = 1\<rparr>,
      ''model'' \<mapsto> \<lparr>UniformDescriptor.Name = ''model'', Type = GL_FLOAT_MAT4, Count = 1, Location = 5\<rparr>,
      ''flip'' \<mapsto> \<lparr>UniformDescriptor.Name = ''flip'', Type = 0x8B56, Count = 1, Location = 6\<rparr>]"

definition example_shader :: Shader where
  "example_shader =
     \<lparr>Shader.id = 7, shaders = None, descriptors = example_descriptors,
      blockDescriptors = Map.empty\<rparr>"

definition example_texture :: Texture where
  "example_texture =
     \<lparr>Texture.id = 3, width = 256, height = 256, format = 0x1908, internalFormat = 0x1908,
      typ' = 0x1401\<rparr>"

definition GL_COLOR_ATTACHMENT0 :: uint32 where "GL_COLOR_ATTACHMENT0 = 0x8CE0"
definition GL_DEPTH_TEST :: uint32 where "GL_DEPTH_TEST = 0x0B71"
definition GL_BLEND :: uint32 where "GL_BLEND = 0x0BE2"
definition GL_CULL_FACE :: uint32 where "GL_CULL_FACE = 0x0B44"
definition GL_TEXTURE0 :: uint32 where "GL_TEXTURE0 = 0x84C0"

definition example_framebuffer :: FrameBuffer where
  "example_framebuffer =
     \<lparr>FrameBuffer.id = 2, textures = Some [GL_COLOR_ATTACHMENT0 \<mapsto> example_texture]\<rparr>"

definition example_heap :: heap where
  "example_heap =
     \<lparr>shader_at = (\<lambda>_. example_shader), framebuffer_at = (\<lambda>_. example_framebuffer)\<rparr>"

text \<open>A technique from the constructor with a shader and no framebuffer.\<close>

definition plain_technique :: Technique where
  "plain_technique = NewTechnique\<lparr>shader := Some 1\<rparr>"

definition depth_cull_technique :: Technique where
  "depth_cull_technique = Enable (Enable plain_technique GL_DEPTH_TEST) GL_CULL_FACE"

definition blend_depth_snapshot :: snapshot where
  "blend_depth_snapshot =
     initial_snapshot\<lparr>prevEnables := [(GL_BLEND, True), (GL_DEPTH_TEST, True)]\<rparr>"

text \<open>The snapshot after a technique that rendered into the framebuffer at address 2.\<close>

definition bound_snapshot :: snapshot where
  "bound_snapshot = initial_snapshot\<lparr>prevFrameBuffer := Some 2\<rparr>"

text \<open>
  The snapshot that the plain technique leaves behind from \<open>bound_snapshot\<close>: the
  device is back on the default framebuffer while \<open>prevFrameBuffer\<close> still names the old one.
\<close>

definition stale_snapshot :: snapshot where
  "stale_snapshot =
     \<lparr>prevBlendFunc = Some \<lparr>sfactor = GL_ONE, dfactor = GL_ZERO\<rparr>,
      prevCullFace = Some \<lparr>cullFace.mode = GL_BACK\<rparr>,
      prevDepthMask = Some \<lparr>flag = True\<rparr>,
      prevDepthFunc = Some \<lparr>xfunc = GL_LESS\<rparr>,
      prevViewport = None, prevShader = Some 1, prevFrameBuffer = Some 2, prevEnables = []\<rparr>"

text \<open>
  A technique with a shader that enables blending, the snapshot it leaves behind from the
  initial one, and a technique from the constructor that was given no shader.
\<close>

definition blend_technique :: Technique where
  "blend_technique = Enable plain_technique GL_BLEND"

definition shaderless_technique :: Technique where
  "shaderless_technique = Enable NewTechnique GL_DEPTH_TEST"

definition blend_snapshot :: snapshot where
  "blend_snapshot = stale_snapshot\<lparr>prevFrameBuffer := None, prevEnables := [(GL_BLEND, True)]\<rparr>"

text \<open>A command with a texture and a uniform whose renderable was never set.\<close>

definition bare_command :: Command where
  "bare_command =
     \<lparr>uniforms = [(''lights'', VPtrInt32 64)],
      Command.textures = [(GL_TEXTURE0, Some example_texture)], renderable = None\<rparr>"

text \<open>
  A linked program with the uniform "color" outside any block and the uniform "tint"
  in block 0, named "Mat"; each name buffer ends with the null terminator.
\<close>

definition color_uniform :: active_uniform where
  "color_uniform =
     \<lparr>name_buf = [0x63, 0x6F, 0x6C, 0x6F, 0x72, 0x00], uniform_type = 0x8B52,
      uniform_size = 1, block_index = - 1, uniform_offset = - 1\<rparr>"

definition tint_uniform :: active_uniform where
  "tint_uniform =
     \<lparr>name_buf = [0x74, 0x69, 0x6E, 0x74, 0x00], uniform_type = 0x8B52,
      uniform_size = 1, block_index = 0, uniform_offset = 16\<rparr>"

definition example_program :: program where
  "example_program =
     \<lparr>active_uniforms = [color_uniform, tint_uniform],
      active_blocks = [\<lparr>block_name_buf = [0x4D, 0x61, 0x74, 0x00], data_size = 32\<rparr>],
      uniform_location = (\<lambda>name. if name = ''color'' then 4 else - 1),
      buffer_offset_alignment = 256\<rparr>"

text \<open>What reflection makes of that program.\<close>

definition reflected_block :: UniformBlockDescriptor where
  "reflected_block =
     \<lparr>UniformBlockDescriptor.Name = ''Mat'', Index = 0, Size = 32,
      Offsets = [''tint'' \<mapsto> 16], Alignment = 256\<rparr>"

definition reflected_shader :: Shader where
  "reflected_shader =
     example_shader
       \<lparr>descriptors :=
          [''color'' \<mapsto>
             \<lparr>UniformDescriptor.Name = ''colo'', Type = 0x8B52, Count = 1, Location = 4\<rparr>],
        blockDescriptors := [''Mat'' \<mapsto> reflected_block]\<rparr>"

section \<open>Properties of the uniform block descriptor\<close>

text \<open>
  C1 (the code departs from it).  The aligned size should be the smallest multiple of
  the alignment that is at least the size, so a size that is already a multiple should
  come back unchanged.  For a block of 32 bytes under an alignment of 16 the code
  returns 48: a whole alignment unit more than the size, which is itself a multiple.
\<close>

theorem AlignedSize_overpads_multiple:
  "AlignedSize \<lparr>UniformBlockDescriptor.Name = ''Lights'', Index = 0, Size = 32,
       Offsets = Map.empty, Alignment = 16\<rparr> = Some 48"
  by (simp add: AlignedSize_def rem_int32_def signed_modulo_int_def)

lemma sint_of_int_fits:
  "- (2 ^ 31) \<le> x \<Longrightarrow> x < 2 ^ 31 \<Longrightarrow> sint (word_of_int x :: int32) = x"
  by (simp add: sint_sbintrunc' signed_take_bit_int_eq_self)

text \<open>
  In general, for a positive alignment and a size that is not negative (and no
  overflow), the code returns the smallest multiple of the alignment that is strictly
  greater than the size.
\<close>

lemma AlignedSize_next_multiple:
  assumes a: "0 < sint (Alignment u)" and s: "0 \<le> sint (Size u)"
    and fits: "sint (Size u) + sint (Alignment u) < 2 ^ 31"
  shows "\<exists>r. AlignedSize u = Some r \<and>
           sint r = (sint (Size u) div sint (Alignment u) + 1) * sint (Alignment u)"
proof -
  let ?s = "sint (Size u)" and ?a = "sint (Alignment u)"
  let ?x = "?s + ?a - ?s mod ?a"
  from a have nonzero: "Alignment u \<noteq> 0" by auto
  have rem: "?s smod ?a = ?s mod ?a"
    using a s by (simp add: smod_mod_positive)
  have "Size u + Alignment u - rem_int32 (Size u) (Alignment u) = word_of_int ?x"
    by (simp add: rem_int32_def rem)
  moreover have "0 \<le> ?s mod ?a" "?s mod ?a < ?a"
    using a by simp_all
  then have range: "- (2 ^ 31) \<le> ?x" "?x < 2 ^ 31"
    using s fits by simp_all
  have "sint (word_of_int ?x :: int32) = ?x"
    using range by (rule sint_of_int_fits)
  moreover have "?x = (?s div ?a + 1) * ?a"
  proof -
    have "?s = ?s div ?a * ?a + ?s mod ?a" by simp
    then show ?thesis by (simp add: algebra_simps)
  qed
  ultimately show ?thesis
    using nonzero by (simp add: AlignedSize_def)
qed

section \<open>Properties of the uniform binder\<close>

lemmas setter_defs =
  SetUniform1i_def SetUniform1ui_def SetUniform1f_def SetUniform1iv_def SetUniform1uiv_def
  SetUniform1fv_def SetUniform2fv_def SetUniform3fv_def SetUniform4fv_def
  SetUniformMatrix3fv_def SetUniformMatrix4fv_def

lemma SetUniform_known:
  assumes "descriptors s name = Some d"
  shows "Type d = GL_SAMPLER_2D \<Longrightarrow> SetUniform s name arg = SetUniform1i (Location d) arg"
    and "Type d = GL_SAMPLER_CUBE \<Longrightarrow> SetUniform s name arg = SetUniform1i (Location d) arg"
    and "Type d = GL_INT \<Longrightarrow> SetUniform s name arg =
           (if 1 <s Count d then SetUniform1iv (Location d) (Count d) arg
            else SetUniform1i (Location d) arg)"
    and "Type d = GL_UNSIGNED_INT \<Longrightarrow> SetUniform s name arg =
           (if 1 <s Count d then SetUniform1uiv (Location d) (Count d) arg
            else SetUniform1ui (Location d) arg)"
    and "Type d = GL_FLOAT \<Longrightarrow> SetUniform s name arg =
           (if 1 <s Count d then SetUniform1fv (Location d) (Count d) arg
            else SetUniform1f (Location d) arg)"
    and "Type d = GL_FLOAT_VEC2 \<Longrightarrow>
           SetUniform s name arg = SetUniform2fv (Location d) (Count d) arg"
    and "Type d = GL_FLOAT_VEC3 \<Longrightarrow>
           SetUniform s name arg = SetUniform3fv (Location d) (Count d) arg"
    and "Type d = GL_FLOAT_VEC4 \<Longrightarrow>
           SetUniform s name arg = SetUniform4fv (Location d) (Count d) arg"
    and "Type d = GL_FLOAT_MAT3 \<Longrightarrow>
           SetUniform s name arg = SetUniformMatrix3fv (Location d) (Count d) arg"
    and "Type d = GL_FLOAT_MAT4 \<Longrightarrow>
           SetUniform s name arg = SetUniformMatrix4fv (Location d) (Count d) arg"
  using assms by (simp_all add: SetUniform_def uniform_type_defs)

text \<open>Each setter succeeds exactly on a value of its own type, and then with one call.\<close>

lemma scalar_setter_succeeds:
  "SetUniform1i l arg = (None, calls) \<longleftrightarrow> (\<exists>v. arg = VInt32 v \<and> calls = [gl_Uniform1i l v])"
  "SetUniform1ui l arg = (None, calls) \<longleftrightarrow> (\<exists>v. arg = VUint32 v \<and> calls = [gl_Uniform1ui l v])"
  "SetUniform1f l arg = (None, calls) \<longleftrightarrow> (\<exists>v. arg = VFloat32 v \<and> calls = [gl_Uniform1f l v])"
  by (cases arg; auto simp: SetUniform1i_def SetUniform1ui_def SetUniform1f_def)+

lemma array_setter_succeeds:
  "SetUniform1iv l c arg = (None, calls) \<longleftrightarrow>
     (\<exists>p. arg = VPtrInt32 p \<and> calls = [gl_Uniform1iv l c p])"
  "SetUniform1uiv l c arg = (None, calls) \<longleftrightarrow>
     (\<exists>p. arg = VPtrUint32 p \<and> calls = [gl_Uniform1uiv l c p])"
  "SetUniform1fv l c arg = (None, calls) \<longleftrightarrow>
     (\<exists>p. arg = VPtrFloat32 p \<and> calls = [gl_Uniform1fv l c p])"
  "SetUniform2fv l c arg = (None, calls) \<longleftrightarrow>
     (\<exists>p. arg = VPtrFloat32 p \<and> calls = [gl_Uniform2fv l c p])"
  "SetUniform3fv l c arg = (None, calls) \<longleftrightarrow>
     (\<exists>p. arg = VPtrFloat32 p \<and> calls = [gl_Uniform3fv l c p])"
  "SetUniform4fv l c arg = (None, calls) \<longleftrightarrow>
     (\<exists>p. arg = VPtrFloat32 p \<and> calls = [gl_Uniform4fv l c p])"
  "SetUniformMatrix3fv l c arg = (None, calls) \<longleftrightarrow>
     (\<exists>p. arg = VPtrFloat32 p \<and> calls = [gl_UniformMatrix3fv l c False p])"
  "SetUniformMatrix4fv l c arg = (None, calls) \<longleftrightarrow>
     (\<exists>p. arg = VPtrFloat32 p \<and> calls = [gl_UniformMatrix4fv l c False p])"
  by (cases arg; auto simp: setter_defs)+

lemma mismatch_scalar:
  "shape_of arg \<noteq> Some ScalarInt32 \<Longrightarrow>
     SetUniform1i l arg = (Some (NotOfType arg ''int32''), [])"
  "shape_of arg \<noteq> Some ScalarUint32 \<Longrightarrow>
     SetUniform1ui l arg = (Some (NotOfType arg ''uint32''), [])"
  "shape_of arg \<noteq> Some ScalarFloat32 \<Longrightarrow>
     SetUniform1f l arg = (Some (NotOfType arg ''float32''), [])"
  by (cases arg; simp add: SetUniform1i_def SetUniform1ui_def SetUniform1f_def)+

lemma mismatch_pointer:
  "shape_of arg \<noteq> Some PointerInt32 \<Longrightarrow>
     SetUniform1iv l c arg = (Some (NotOfType arg ''*int32''), [])"
  "shape_of arg \<noteq> Some PointerUint32 \<Longrightarrow>
     SetUniform1uiv l c arg = (Some (NotOfType arg ''*uint32''), [])"
  "shape_of arg \<noteq> Some PointerFloat32 \<Longrightarrow>
     SetUniform1fv l c arg = (Some (NotOfType arg ''*float32''), [])"
  "shape_of arg \<noteq> Some PointerFloat32 \<Longrightarrow>
     SetUniform2fv l c arg = (Some (NotOfType arg ''*float32''), [])"
  "shape_of arg \<noteq> Some PointerFloat32 \<Longrightarrow>
     SetUniform3fv l c arg = (Some (NotOfType arg ''*float32''), [])"
  "shape_of arg \<noteq> Some PointerFloat32 \<Longrightarrow>
     SetUniform4fv l c arg = (Some (NotOfType arg ''*float32''), [])"
  "shape_of arg \<noteq> Some PointerFloat32 \<Longrightarrow>
     SetUniformMatrix3fv l c arg = (Some (NotOfType arg ''*float32''), [])"
  "shape_of arg \<noteq> Some PointerFloat32 \<Longrightarrow>
     SetUniformMatrix4fv l c arg = (Some (NotOfType arg ''*float32''), [])"
  by (cases arg; simp add: setter_defs)+

lemma expected_shape_cases:
  assumes "expected_shape d = Some sh"
  obtains
    (sampler) "Type d = GL_SAMPLER_2D \<or> Type d = GL_SAMPLER_CUBE" "sh = ScalarInt32"
  | (int) "Type d = GL_INT" "sh = (if 1 <s Count d then PointerInt32 else ScalarInt32)"
  | (uint) "Type d = GL_UNSIGNED_INT"
      "sh = (if 1 <s Count d then PointerUint32 else ScalarUint32)"
  | (float) "Type d = GL_FLOAT" "sh = (if 1 <s Count d then PointerFloat32 else ScalarFloat32)"
  | (vec2) "Type d = GL_FLOAT_VEC2" "sh = PointerFloat32"
  | (vec3) "Type d = GL_FLOAT_VEC3" "sh = PointerFloat32"
  | (vec4) "Type d = GL_FLOAT_VEC4" "sh = PointerFloat32"
  | (mat3) "Type d = GL_FLOAT_MAT3" "sh = PointerFloat32"
  | (mat4) "Type d = GL_FLOAT_MAT4" "sh = PointerFloat32"
  using assms unfolding expected_shape_def
  by (auto split: if_splits)

text \<open>
  C6.  A name that is absent from the descriptor map is rejected with the
  unknown-uniform error, whatever the value, and no device call is issued.
\<close>

theorem SetUniform_unknown:
  "descriptors s name = None \<Longrightarrow>
     SetUniform s name arg = (Some (UniformNotRecognized name), [])"
  by (simp add: SetUniform_def)

theorem SetUniform_unknown_witness:
  "descriptors example_shader ''doesNotExist'' = None \<and>
   SetUniform example_shader ''doesNotExist'' (VFloat32 0) =
     (Some (UniformNotRecognized ''doesNotExist''), [])"
proof -
  have absent: "descriptors example_shader ''doesNotExist'' = None"
    by (simp add: example_shader_def example_descriptors_def)
  show ?thesis
    using absent SetUniform_unknown [OF absent, of "VFloat32 0"] by simp
qed

text \<open>
  C7 as stated fails: it promises exactly one device call on success for every known
  name, but a known name whose descriptor has a type outside the ten handled ones (here
  a bool uniform) succeeds with no device call at all.
\<close>

theorem SetUniform_dispatch_counterexample:
  "descriptors example_shader ''flip'' =
     Some \<lparr>UniformDescriptor.Name = ''flip'', Type = 0x8B56, Count = 1, Location = 6\<rparr> \<and>
   SetUniform example_shader ''flip'' (VInt32 1) = (None, []) \<and>
   length (snd (SetUniform example_shader ''flip'' (VInt32 1))) \<noteq> 1"
  by (simp add: SetUniform_def example_shader_def example_descriptors_def uniform_type_defs)

text \<open>
  C7, as amended.  For a known name whose descriptor has one of the ten handled types,
  the dispatch follows the type, and success means exactly one device call: samplers
  take the scalar-int call; int, uint and float take the array call exactly when the
  count exceeds one and the scalar call otherwise; vectors and matrices always take the
  array call.  Each line says when the call succeeds and which single call it then
  issues.
\<close>

theorem SetUniform_dispatch:
  assumes "descriptors s name = Some d"
  shows
    "(Type d = GL_SAMPLER_2D \<or> Type d = GL_SAMPLER_CUBE \<longrightarrow>
        (SetUniform s name arg = (None, calls) \<longleftrightarrow>
           (\<exists>v. arg = VInt32 v \<and> calls = [gl_Uniform1i (Location d) v]))) \<and>
     (Type d = GL_INT \<longrightarrow>
        (SetUniform s name arg = (None, calls) \<longleftrightarrow>
           (if 1 <s Count d
            then \<exists>p. arg = VPtrInt32 p \<and> calls = [gl_Uniform1iv (Location d) (Count d) p]
            else \<exists>v. arg = VInt32 v \<and> calls = [gl_Uniform1i (Location d) v]))) \<and>
     (Type d = GL_UNSIGNED_INT \<longrightarrow>
        (SetUniform s name arg = (None, calls) \<longleftrightarrow>
           (if 1 <s Count d
            then \<exists>p. arg = VPtrUint32 p \<and> calls = [gl_Uniform1uiv (Location d) (Count d) p]
            else \<exists>v. arg = VUint32 v \<and> calls = [gl_Uniform1ui (Location d) v]))) \<and>
     (Type d = GL_FLOAT \<longrightarrow>
        (SetUniform s name arg = (None, calls) \<longleftrightarrow>
           (if 1 <s Count d
            then \<exists>p. arg = VPtrFloat32 p \<and> calls = [gl_Uniform1fv (Location d) (Count d) p]
            else \<exists>v. arg = VFloat32 v \<and> calls = [gl_Uniform1f (Location d) v]))) \<and>
     (Type d = GL_FLOAT_VEC2 \<longrightarrow>
        (SetUniform s name arg = (None, calls) \<longleftrightarrow>
           (\<exists>p. arg = VPtrFloat32 p \<and> calls = [gl_Uniform2fv (Location d) (Count d) p]))) \<and>
     (Type d = GL_FLOAT_VEC3 \<longrightarrow>
        (SetUniform s name arg = (None, calls) \<longleftrightarrow>
           (\<exists>p. arg = VPtrFloat32 p \<and> calls = [gl_Uniform3fv (Location d) (Count d) p]))) \<and>
     (Type d = GL_FLOAT_VEC4 \<longrightarrow>
        (SetUniform s name arg = (None, calls) \<longleftrightarrow>
           (\<exists>p. arg = VPtrFloat32 p \<and> calls = [gl_Uniform4fv (Location d) (Count d) p]))) \<and>
     (Type d = GL_FLOAT_MAT3 \<longrightarrow>
        (SetUniform s name arg = (None, calls) \<longleftrightarrow>
           (\<exists>p. arg = VPtrFloat32 p \<and>
                calls = [gl_UniformMatrix3fv (Location d) (Count d) False p]))) \<and>
     (Type d = GL_FLOAT_MAT4 \<longrightarrow>
        (SetUniform s name arg = (None, calls) \<longleftrightarrow>
           (\<exists>p. arg = VPtrFloat32 p \<and>
                calls = [gl_UniformMatrix4fv (Location d) (Count d) False p])))"
proof -
  note known = SetUniform_known [OF assms]
  have sampler: "Type d = GL_SAMPLER_2D \<or> Type d = GL_SAMPLER_CUBE \<Longrightarrow>
      SetUniform s name arg = SetUniform1i (Location d) arg"
    using known(1,2) by blast
  show ?thesis
    by (intro conjI impI)
      (simp_all add: sampler known(3-10) scalar_setter_succeeds array_setter_succeeds)
qed

theorem SetUniform_dispatch_witness:
  "descriptors example_shader ''lights'' =
     Some \<lparr>UniformDescriptor.Name = ''lights'', Type = GL_INT, Count = 4, Location = 1\<rparr> \<and>
   SetUniform example_shader ''lights'' (VPtrInt32 64) = (None, [gl_Uniform1iv 1 4 64])"
proof -
  let ?d = "\<lparr>UniformDescriptor.Name = ''lights'', Type = GL_INT, Count = 4, Location = 1\<rparr>"
  have known: "descriptors example_shader ''lights'' = Some ?d"
    by (simp add: example_shader_def example_descriptors_def)
  show ?thesis
    using known
      SetUniform_dispatch [OF known, of "VPtrInt32 64" "[gl_Uniform1iv 1 4 64]"]
    by (simp add: uniform_type_defs word_sless_alt)
qed

text \<open>
  C8.  For a known name whose dispatch expects a shape that the supplied value does not
  have, the call returns the type-mismatch error and issues no device call.
\<close>

theorem SetUniform_mismatch:
  assumes known: "descriptors s name = Some d"
    and shape: "expected_shape d = Some sh"
    and differs: "shape_of arg \<noteq> Some sh"
  shows "\<exists>T. SetUniform s name arg = (Some (NotOfType arg T), [])"
  using shape
proof (cases rule: expected_shape_cases)
  case sampler
  with differs show ?thesis
    by (auto simp: SetUniform_known [OF known] mismatch_scalar)
next
  case int
  with differs show ?thesis
    by (simp add: SetUniform_known [OF known] mismatch_scalar mismatch_pointer
        split: if_splits)
next
  case uint
  with differs show ?thesis
    by (simp add: SetUniform_known [OF known] mismatch_scalar mismatch_pointer
        split: if_splits)
next
  case float
  with differs show ?thesis
    by (simp add: SetUniform_known [OF known] mismatch_scalar mismatch_pointer
        split: if_splits)
next
  case vec2
  with differs show ?thesis by (simp add: SetUniform_known [OF known] mismatch_pointer)
next
  case vec3
  with differs show ?thesis by (simp add: SetUniform_known [OF known] mismatch_pointer)
next
  case vec4
  with differs show ?thesis by (simp add: SetUniform_known [OF known] mismatch_pointer)
next
  case mat3
  with differs show ?thesis by (simp add: SetUniform_known [OF known] mismatch_pointer)
next
  case mat4
  with differs show ?thesis by (simp add: SetUniform_known [OF known] mismatch_pointer)
qed

theorem SetUniform_mismatch_witness:
  "descriptors example_shader ''model'' =
     Some \<lparr>UniformDescriptor.Name = ''model'', Type = GL_FLOAT_MAT4, Count = 1, Location = 5\<rparr> \<and>
   expected_shape
     \<lparr>UniformDescriptor.Name = ''model'', Type = GL_FLOAT_MAT4, Count = 1, Location = 5\<rparr> =
     Some PointerFloat32 \<and>
   shape_of (VFloat32 1) \<noteq> Some PointerFloat32 \<and>
   SetUniform example_shader ''model'' (VFloat32 1) =
     (Some (NotOfType (VFloat32 1) ''*float32''), [])"
proof -
  let ?d = "\<lparr>UniformDescriptor.Name = ''model'', Type = GL_FLOAT_MAT4, Count = 1, Location = 5\<rparr>"
  have known: "descriptors example_shader ''model'' = Some ?d"
    by (simp add: example_shader_def example_descriptors_def)
  have shape: "expected_shape ?d = Some PointerFloat32"
    by (simp add: expected_shape_def uniform_type_defs)
  have differs: "shape_of (VFloat32 1) \<noteq> Some PointerFloat32"
    by simp
  from SetUniform_mismatch [OF known shape differs]
  obtain T where "SetUniform example_shader ''model'' (VFloat32 1) =
      (Some (NotOfType (VFloat32 1) T), [])" ..
  moreover have "SetUniform example_shader ''model'' (VFloat32 1) =
      (Some (NotOfType (VFloat32 1) ''*float32''), [])"
    by (simp add: SetUniform_known(10) [OF known] SetUniformMatrix4fv_def)
  ultimately show ?thesis
    using known shape differs by simp
qed

text \<open>
  C10.  A known name whose descriptor has a type outside the ten handled ones is
  accepted: the call returns no error and issues no device call, whatever the value.
\<close>

theorem SetUniform_unhandled_type:
  assumes "descriptors s name = Some d"
    and "Type d \<notin> {GL_SAMPLER_2D, GL_SAMPLER_CUBE, GL_INT, GL_UNSIGNED_INT, GL_FLOAT,
           GL_FLOAT_VEC2, GL_FLOAT_VEC3, GL_FLOAT_VEC4, GL_FLOAT_MAT3, GL_FLOAT_MAT4}"
  shows "SetUniform s name arg = (None, [])"
  using assms by (simp add: SetUniform_def)

theorem SetUniform_unhandled_type_witness:
  "descriptors example_shader ''flip'' =
     Some \<lparr>UniformDescriptor.Name = ''flip'', Type = 0x8B56, Count = 1, Location = 6\<rparr> \<and>
   (0x8B56 :: uint32) \<notin> {GL_SAMPLER_2D, GL_SAMPLER_CUBE, GL_INT, GL_UNSIGNED_INT, GL_FLOAT,
      GL_FLOAT_VEC2, GL_FLOAT_VEC3, GL_FLOAT_VEC4, GL_FLOAT_MAT3, GL_FLOAT_MAT4} \<and>
   SetUniform example_shader ''flip'' (VOther ''bool'') = (None, [])"
proof -
  let ?d = "\<lparr>UniformDescriptor.Name = ''flip'', Type = 0x8B56, Count = 1, Location = 6\<rparr>"
  have known: "descriptors example_shader ''flip'' = Some ?d"
    by (simp add: example_shader_def example_descriptors_def)
  have other: "Type ?d \<notin> {GL_SAMPLER_2D, GL_SAMPLER_CUBE, GL_INT, GL_UNSIGNED_INT, GL_FLOAT,
      GL_FLOAT_VEC2, GL_FLOAT_VEC3, GL_FLOAT_VEC4, GL_FLOAT_MAT3, GL_FLOAT_MAT4}"
    by (simp add: uniform_type_defs)
  show ?thesis
    using known other SetUniform_unhandled_type [OF known other, of "VOther ''bool''"]
    by simp
qed

section \<open>Properties of the framebuffer\<close>






section \<open>Properties of commands\<close>

text \<open>
  C3 (the code departs from it).  A command without a drawable should draw nothing and
  complete silently.  In the code \<open>Execute\<close> calls \<open>Bind\<close> on the nil renderable, which
  reads \<open>r.id\<close>: every such command ends in a panic, here after its texture and its
  uniform were already sent to the device.
\<close>

theorem Execute_without_renderable_panics:
  "snd (Execute (c\<lparr>renderable := None\<rparr>) s) = Panicked \<and>
   Execute bare_command (Some example_shader) =
     ([gl_ActiveTexture GL_TEXTURE0, gl_BindTexture GL_TEXTURE_2D 3, gl_Uniform1iv 1 4 64],
      Panicked) \<and>
   fst (Draw example_heap plain_technique [bare_command] initial_snapshot) =
     [gl_UseProgram 7, gl_BlendFunc GL_ONE GL_ZERO, gl_CullFace GL_BACK, gl_DepthMask True,
      gl_DepthFunc GL_LESS, gl_ActiveTexture GL_TEXTURE0, gl_BindTexture GL_TEXTURE_2D 3,
      gl_Uniform1iv 1 4 64] \<and>
   snd (snd (Draw example_heap plain_technique [bare_command] initial_snapshot)) = Panicked"
proof (intro conjI)
  have run: "Execute bare_command (Some example_shader) =
     ([gl_ActiveTexture GL_TEXTURE0, gl_BindTexture GL_TEXTURE_2D 3, gl_Uniform1iv 1 4 64],
      Panicked)"
    by (simp add: Execute_def bare_command_def Texture_Bind_def example_texture_def
        example_shader_def example_descriptors_def SetUniform_def SetUniform1iv_def
        uniform_type_defs word_sless_alt)
  have prepared: "Technique_setup example_heap plain_technique initial_snapshot =
     ([gl_UseProgram 7, gl_BlendFunc GL_ONE GL_ZERO, gl_CullFace GL_BACK, gl_DepthMask True,
       gl_DepthFunc GL_LESS],
      stale_snapshot\<lparr>prevFrameBuffer := None\<rparr>, Returned ())"
    by (simp add: Technique_setup_def setup_framebuffer_def setup_shader_def
        setup_enables_def setup_blendFunc_def setup_cullFace_def setup_depthMask_def
        setup_depthFunc_def setup_viewport_def stale_of_def blendFunc_Equals_def
        cullFace_Equals_def depthMask_Equals_def depthFunc_Equals_def example_heap_def
        example_shader_def plain_technique_def NewTechnique_def initial_snapshot_def
        stale_snapshot_def)
  have sh: "map_option (shader_at example_heap) (shader plain_technique) = Some example_shader"
    by (simp add: example_heap_def plain_technique_def NewTechnique_def)
  show "fst (Draw example_heap plain_technique [bare_command] initial_snapshot) =
     [gl_UseProgram 7, gl_BlendFunc GL_ONE GL_ZERO, gl_CullFace GL_BACK, gl_DepthMask True,
      gl_DepthFunc GL_LESS, gl_ActiveTexture GL_TEXTURE0, gl_BindTexture GL_TEXTURE_2D 3,
      gl_Uniform1iv 1 4 64]"
    by (simp add: Draw_def prepared sh run)
  show "snd (snd (Draw example_heap plain_technique [bare_command] initial_snapshot)) = Panicked"
    by (simp add: Draw_def prepared sh run)
  show "snd (Execute (c\<lparr>renderable := None\<rparr>) s) = Panicked"
    by (simp add: Execute_def split: prod.splits outcome.splits)
  show "Execute bare_command (Some example_shader) =
     ([gl_ActiveTexture GL_TEXTURE0, gl_BindTexture GL_TEXTURE_2D 3, gl_Uniform1iv 1 4 64],
      Panicked)"
    by (simp add: Execute_def bare_command_def Texture_Bind_def example_texture_def
        example_shader_def example_descriptors_def SetUniform_def SetUniform1iv_def
        uniform_type_defs word_sless_alt)
qed

section \<open>Properties of the render state cache\<close>

lemmas section_defs =
  Technique_setup_def setup_framebuffer_def setup_shader_def setup_enables_def
  setup_blendFunc_def setup_cullFace_def setup_depthMask_def setup_depthFunc_def
  setup_viewport_def stale_of_def index_bool_def blendFunc_Equals_def cullFace_Equals_def
  depthMask_Equals_def depthFunc_Equals_def Viewport_Equals_def FrameBuffer_Bind_def
  FrameBuffer_Unbind_def

lemmas example_technique_defs =
  example_heap_def example_shader_def example_framebuffer_def plain_technique_def
  NewTechnique_def Enable_def initial_snapshot_def

lemma stale_fold:
  "map_of (fold (\<lambda>state stale. AList.update state True stale) ks acc) k =
     (if k \<in> set ks then Some True else map_of acc k)"
  by (induction ks arbitrary: acc) (auto simp: update_conv')

lemma map_of_stale_of:
  "map_of (stale_of prev) k = (if k \<in> fst ` set prev then Some True else None)"
  by (simp add: stale_of_def stale_fold)

lemma keys_stale_of: "fst ` set (stale_of prev) = fst ` set prev"
proof -
  have "dom (map_of (stale_of prev)) = fst ` set prev"
    by (auto simp: map_of_stale_of dom_def)
  then show ?thesis by (simp add: dom_map_of_conv_image_fst)
qed

lemma index_bool_update:
  "index_bool (AList.update s True prev) k \<longleftrightarrow> k = s \<or> index_bool prev k"
  by (simp add: index_bool_def update_conv')

lemma enable_loop_calls:
  "enable_loop es prev stale = (cs, prev', stale') \<Longrightarrow>
     (gl_Enable k \<in> set cs \<longleftrightarrow> k \<in> set es \<and> \<not> index_bool prev k) \<and>
     gl_Disable k \<notin> set cs"
proof (induction es arbitrary: prev stale cs prev' stale')
  case Nil
  then show ?case by simp
next
  case (Cons state rest)
  show ?case
  proof (cases "index_bool prev state")
    case True
    with Cons.prems have "enable_loop rest prev (AList.delete state stale) = (cs, prev', stale')"
      by simp
    from Cons.IH [OF this] True show ?thesis by auto
  next
    case False
    with Cons.prems obtain cs0 where
      rest: "enable_loop rest (AList.update state True prev) (AList.delete state stale) =
               (cs0, prev', stale')"
      and cs: "cs = gl_Enable state # cs0"
      by (auto split: prod.splits)
    from Cons.IH [OF rest] False cs show ?thesis
      by (auto simp: index_bool_update)
  qed
qed

lemma enable_loop_prev:
  "enable_loop es prev stale = (cs, prev', stale') \<Longrightarrow>
     index_bool prev' k = (k \<in> set es \<or> index_bool prev k) \<and>
     (k \<notin> set es \<longrightarrow> map_of prev' k = map_of prev k) \<and>
     fst ` set prev' = fst ` set prev \<union> set es"
proof (induction es arbitrary: prev stale cs prev' stale')
  case Nil
  then show ?case by simp
next
  case (Cons state rest)
  show ?case
  proof (cases "index_bool prev state")
    case True
    with Cons.prems have "enable_loop rest prev (AList.delete state stale) = (cs, prev', stale')"
      by simp
    from Cons.IH [OF this] True have *: "index_bool prev' k = (k \<in> set rest \<or> index_bool prev k)"
      "k \<notin> set rest \<longrightarrow> map_of prev' k = map_of prev k"
      "fst ` set prev' = fst ` set prev \<union> set rest" by auto
    from True have "state \<in> fst ` set prev"
      by (auto simp: index_bool_def dest: map_of_SomeD split: option.splits
          intro: rev_image_eqI)
    with * True show ?thesis by auto
  next
    case False
    with Cons.prems obtain cs0 where
      rest: "enable_loop rest (AList.update state True prev) (AList.delete state stale) =
               (cs0, prev', stale')"
      by (auto split: prod.splits)
    from Cons.IH [OF rest] show ?thesis
      by (auto simp: index_bool_update update_conv' dom_update)
  qed
qed

lemma enable_loop_stale:
  "enable_loop es prev stale = (cs, prev', stale') \<Longrightarrow>
     fst ` set stale' = fst ` set stale - set es"
proof (induction es arbitrary: prev stale cs prev' stale')
  case Nil
  then show ?case by simp
next
  case (Cons state rest)
  have keys: "fst ` set (AList.delete state stale) = fst ` set stale - {state}"
    by (metis delete_keys list.set_map set_removeAll)
  show ?case
  proof (cases "index_bool prev state")
    case True
    with Cons.prems have "enable_loop rest prev (AList.delete state stale) = (cs, prev', stale')"
      by simp
    from Cons.IH [OF this] keys show ?thesis by auto
  next
    case False
    with Cons.prems obtain cs0 where
      rest: "enable_loop rest (AList.update state True prev) (AList.delete state stale) =
               (cs0, prev', stale')"
      by (auto split: prod.splits)
    from Cons.IH [OF rest] keys show ?thesis by auto
  qed
qed

lemma disable_loop_result:
  "disable_loop ks prev = (cs, prev') \<Longrightarrow>
     cs = map gl_Disable ks \<and>
     map_of prev' k = (if k \<in> set ks then None else map_of prev k)"
proof (induction ks arbitrary: prev cs prev')
  case Nil
  then show ?case by simp
next
  case (Cons state rest)
  from Cons.prems obtain cs0 where
    rest: "disable_loop rest (AList.delete state prev) = (cs0, prev')"
    and cs: "cs = gl_Disable state # cs0"
    by (auto split: prod.splits)
  from Cons.IH [OF rest] cs show ?case
    by (auto simp: delete_conv')
qed


lemma index_bool_keys: "index_bool m k \<Longrightarrow> k \<in> fst ` set m"
  by (auto simp: index_bool_def dest: map_of_SomeD split: option.splits intro: rev_image_eqI)

lemma setup_enables_result:
  assumes "setup_enables t p = (cs, p')"
  shows "gl_Enable k \<in> set cs \<longleftrightarrow> k \<in> set (enables t) \<and> \<not> index_bool (prevEnables p) k"
    and "gl_Disable k \<in> set cs \<longleftrightarrow> k \<in> fst ` set (prevEnables p) \<and> k \<notin> set (enables t)"
    and "index_bool (prevEnables p') k \<longleftrightarrow> k \<in> set (enables t)"
    and "fst ` set (prevEnables p') = set (enables t)"
    and "p' = p\<lparr>prevEnables := prevEnables p'\<rparr>"
proof -
  from assms obtain cs1 prev1 stale cs2 prev2 where
    en: "enable_loop (enables t) (prevEnables p) (stale_of (prevEnables p)) = (cs1, prev1, stale)"
    and dis: "disable_loop (map fst stale) prev1 = (cs2, prev2)"
    and cs: "cs = cs1 @ cs2" and p': "p' = p\<lparr>prevEnables := prev2\<rparr>"
    by (auto simp: setup_enables_def split: prod.splits)
  note calls1 = enable_loop_calls [OF en]
  note prev1 = enable_loop_prev [OF en]
  have stale: "fst ` set stale = fst ` set (prevEnables p) - set (enables t)"
    using enable_loop_stale [OF en] by (simp add: keys_stale_of)
  from disable_loop_result [OF dis] have cs2: "cs2 = map gl_Disable (map fst stale)"
    and prev2: "\<And>k. map_of prev2 k = (if k \<in> fst ` set stale then None else map_of prev1 k)"
    by auto
  show "gl_Enable k \<in> set cs \<longleftrightarrow> k \<in> set (enables t) \<and> \<not> index_bool (prevEnables p) k"
    using calls1 [of k] cs cs2 by auto
  show "gl_Disable k \<in> set cs \<longleftrightarrow> k \<in> fst ` set (prevEnables p) \<and> k \<notin> set (enables t)"
    using calls1 [of k] cs cs2 stale by auto
  have dom2: "dom (map_of prev2) = set (enables t)"
  proof -
    have "dom (map_of prev2) = dom (map_of prev1) - fst ` set stale"
      using prev2 by (auto simp: dom_def)
    also have "dom (map_of prev1) = fst ` set (prevEnables p) \<union> set (enables t)"
      using prev1 [of k] by (simp add: dom_map_of_conv_image_fst)
    finally show ?thesis using stale by auto
  qed
  show keys: "fst ` set (prevEnables p') = set (enables t)"
    using dom2 p' by (simp add: dom_map_of_conv_image_fst)
  show "index_bool (prevEnables p') k \<longleftrightarrow> k \<in> set (enables t)"
  proof
    assume "index_bool (prevEnables p') k"
    then show "k \<in> set (enables t)" using index_bool_keys keys by blast
  next
    assume k: "k \<in> set (enables t)"
    then have "k \<notin> fst ` set stale" using stale by simp
    then have "map_of prev2 k = map_of prev1 k" using prev2 by simp
    moreover have "index_bool prev1 k" using prev1 [of k] k by simp
    ultimately show "index_bool (prevEnables p') k" using p' by (simp add: index_bool_def)
  qed
  show "p' = p\<lparr>prevEnables := prevEnables p'\<rparr>" using p' by simp
qed


lemma setup_framebuffer_enables:
  "setup_framebuffer h t p = (cs, p') \<Longrightarrow>
     prevEnables p' = prevEnables p \<and> gl_Enable k \<notin> set cs \<and> gl_Disable k \<notin> set cs"
  by (auto simp: setup_framebuffer_def FrameBuffer_Bind_def FrameBuffer_Unbind_def Let_def
      split: option.splits if_splits)

lemma setup_shader_enables:
  "setup_shader h t p = (cs, p', r) \<Longrightarrow>
     prevEnables p' = prevEnables p \<and> gl_Enable k \<notin> set cs \<and> gl_Disable k \<notin> set cs"
  by (auto simp: setup_shader_def split: option.splits if_splits)

lemma setup_functions_enables:
  "setup_blendFunc t p = (cs, p') \<Longrightarrow>
     prevEnables p' = prevEnables p \<and> gl_Enable k \<notin> set cs \<and> gl_Disable k \<notin> set cs"
  "setup_cullFace t p = (cs, p') \<Longrightarrow>
     prevEnables p' = prevEnables p \<and> gl_Enable k \<notin> set cs \<and> gl_Disable k \<notin> set cs"
  "setup_depthMask t p = (cs, p') \<Longrightarrow>
     prevEnables p' = prevEnables p \<and> gl_Enable k \<notin> set cs \<and> gl_Disable k \<notin> set cs"
  "setup_depthFunc t p = (cs, p') \<Longrightarrow>
     prevEnables p' = prevEnables p \<and> gl_Enable k \<notin> set cs \<and> gl_Disable k \<notin> set cs"
  "setup_viewport t p = (cs, p') \<Longrightarrow>
     prevEnables p' = prevEnables p \<and> gl_Enable k \<notin> set cs \<and> gl_Disable k \<notin> set cs"
  by (auto simp: setup_blendFunc_def setup_cullFace_def setup_depthMask_def
      setup_depthFunc_def setup_viewport_def split: option.splits if_splits)

lemma Technique_setup_sections:
  assumes "Technique_setup h t p = (calls, p', Returned ())"
  obtains cs1 p1 cs2 p2 cs3 p3 cs4 p4 cs5 p5 cs6 p6 cs7 p7 cs8 where
    "setup_framebuffer h t p = (cs1, p1)"
    "setup_shader h t p1 = (cs2, p2, Returned ())"
    "setup_enables t p2 = (cs3, p3)"
    "setup_blendFunc t p3 = (cs4, p4)"
    "setup_cullFace t p4 = (cs5, p5)"
    "setup_depthMask t p5 = (cs6, p6)"
    "setup_depthFunc t p6 = (cs7, p7)"
    "setup_viewport t p7 = (cs8, p')"
    "calls = cs1 @ cs2 @ cs3 @ cs4 @ cs5 @ cs6 @ cs7 @ cs8"
  using assms unfolding Technique_setup_def
  by (auto split: prod.splits outcome.splits)

lemma Technique_setup_enables:
  assumes "Technique_setup h t p = (calls, p', Returned ())"
  shows "gl_Enable k \<in> set calls \<longleftrightarrow> k \<in> set (enables t) \<and> \<not> index_bool (prevEnables p) k"
    and "gl_Disable k \<in> set calls \<longleftrightarrow> k \<in> fst ` set (prevEnables p) \<and> k \<notin> set (enables t)"
    and "index_bool (prevEnables p') k \<longleftrightarrow> k \<in> set (enables t)"
    and "fst ` set (prevEnables p') = set (enables t)"
proof -
  from assms obtain cs1 p1 cs2 p2 cs3 p3 cs4 p4 cs5 p5 cs6 p6 cs7 p7 cs8 where
    s1: "setup_framebuffer h t p = (cs1, p1)"
    and s2: "setup_shader h t p1 = (cs2, p2, Returned ())"
    and s3: "setup_enables t p2 = (cs3, p3)"
    and s4: "setup_blendFunc t p3 = (cs4, p4)"
    and s5: "setup_cullFace t p4 = (cs5, p5)"
    and s6: "setup_depthMask t p5 = (cs6, p6)"
    and s7: "setup_depthFunc t p6 = (cs7, p7)"
    and s8: "setup_viewport t p7 = (cs8, p')"
    and calls: "calls = cs1 @ cs2 @ cs3 @ cs4 @ cs5 @ cs6 @ cs7 @ cs8"
    by (rule Technique_setup_sections)
  note before = setup_framebuffer_enables [OF s1, of k] setup_shader_enables [OF s2, of k]
  note after = setup_functions_enables(1) [OF s4, of k] setup_functions_enables(2) [OF s5, of k]
    setup_functions_enables(3) [OF s6, of k] setup_functions_enables(4) [OF s7, of k]
    setup_functions_enables(5) [OF s8, of k]
  have start: "prevEnables p2 = prevEnables p" using before by simp
  have finish: "prevEnables p' = prevEnables p3" using after by simp
  have en: "gl_Enable k \<in> set calls \<longleftrightarrow> gl_Enable k \<in> set cs3"
    and dis: "gl_Disable k \<in> set calls \<longleftrightarrow> gl_Disable k \<in> set cs3"
    using before after calls by auto
  note mid = setup_enables_result [OF s3]
  show "gl_Enable k \<in> set calls \<longleftrightarrow> k \<in> set (enables t) \<and> \<not> index_bool (prevEnables p) k"
    using en mid(1) [of k] start by simp
  show "gl_Disable k \<in> set calls \<longleftrightarrow> k \<in> fst ` set (prevEnables p) \<and> k \<notin> set (enables t)"
    using dis mid(2) [of k] start by simp
  show "index_bool (prevEnables p') k \<longleftrightarrow> k \<in> set (enables t)"
    using mid(3) [of k] finish by simp
  show "fst ` set (prevEnables p') = set (enables t)"
    using mid(4) finish by simp
qed

lemma enable_loop_noop:
  "list_all (index_bool prev) es \<Longrightarrow>
     enable_loop es prev stale = ([], prev, fold AList.delete es stale)"
  by (induction es arbitrary: stale) auto

lemma fold_delete_keys:
  "fst ` set (fold AList.delete es stale) = fst ` set stale - set es"
proof (induction es arbitrary: stale)
  case Nil
  then show ?case by simp
next
  case (Cons e es)
  have "fst ` set (AList.delete e stale) = fst ` set stale - {e}"
    by (metis delete_keys list.set_map set_removeAll)
  with Cons show ?case by auto
qed

lemma setup_enables_noop:
  assumes "list_all (index_bool (prevEnables p)) (enables t)"
    and "fst ` set (prevEnables p) \<subseteq> set (enables t)"
  shows "setup_enables t p = ([], p)"
proof -
  have "fst ` set (fold AList.delete (enables t) (stale_of (prevEnables p))) = {}"
    using assms(2) by (simp add: fold_delete_keys keys_stale_of)
  then have "fold AList.delete (enables t) (stale_of (prevEnables p)) = []"
    by simp
  then show ?thesis
    by (simp add: setup_enables_def enable_loop_noop [OF assms(1)])
qed

lemma settled_noop:
  assumes "settled t p"
  shows "Technique_setup h t p = ([], p, Returned ())"
proof -
  from assms have en: "setup_enables t p = ([], p)"
    by (simp add: settled_def setup_enables_noop)
  from assms have fb: "setup_framebuffer h t p = ([], p)"
    by (auto simp: settled_def setup_framebuffer_def split: option.splits)
  from assms have sh: "setup_shader h t p = ([], p, Returned ())"
    by (simp add: settled_def setup_shader_def)
  from assms have f1: "setup_blendFunc t p = ([], p)"
    by (auto simp: settled_def setup_blendFunc_def split: option.splits)
  from assms have f2: "setup_cullFace t p = ([], p)"
    by (auto simp: settled_def setup_cullFace_def split: option.splits)
  from assms have f3: "setup_depthMask t p = ([], p)"
    by (auto simp: settled_def setup_depthMask_def split: option.splits)
  from assms have f4: "setup_depthFunc t p = ([], p)"
    by (auto simp: settled_def setup_depthFunc_def split: option.splits)
  from assms have f5: "setup_viewport t p = ([], p)"
    by (auto simp: settled_def setup_viewport_def split: option.splits)
  note fn = f1 f2 f3 f4 f5
  show ?thesis
    by (simp add: Technique_setup_def fb sh en fn)
qed

lemma setup_framebuffer_field:
  "setup_framebuffer h t p = (cs, p') \<Longrightarrow>
     \<exists>v. p' = p\<lparr>prevFrameBuffer := v\<rparr> \<and>
         (case framebuffer t of None \<Rightarrow> v = prevFrameBuffer p | Some a \<Rightarrow> v = Some a)"
  by (auto simp: setup_framebuffer_def Let_def split: option.splits if_splits)

lemma setup_shader_field:
  "setup_shader h t p = (cs, p', Returned ()) \<Longrightarrow> p' = p\<lparr>prevShader := shader t\<rparr>"
  by (auto simp: setup_shader_def split: option.splits if_splits)

lemma setup_enables_field:
  assumes "setup_enables t p = (cs, p')"
  shows "\<exists>v. p' = p\<lparr>prevEnables := v\<rparr> \<and> list_all (index_bool v) (enables t) \<and>
           fst ` set v \<subseteq> set (enables t)"
proof -
  note r = setup_enables_result [OF assms]
  have "list_all (index_bool (prevEnables p')) (enables t)"
    using r(3) by (simp add: list_all_iff)
  with r(4,5) show ?thesis by blast
qed

lemma setup_functions_field:
  "setup_blendFunc t p = (cs, p') \<Longrightarrow>
     p' = p\<lparr>prevBlendFunc := prevBlendFunc p'\<rparr> \<and>
     (case blendFunc t of None \<Rightarrow> True | Some b \<Rightarrow> blendFunc_Equals b (prevBlendFunc p'))"
  "setup_cullFace t p = (cs, p') \<Longrightarrow>
     p' = p\<lparr>prevCullFace := prevCullFace p'\<rparr> \<and>
     (case cullFace t of None \<Rightarrow> True | Some c \<Rightarrow> cullFace_Equals c (prevCullFace p'))"
  "setup_depthMask t p = (cs, p') \<Longrightarrow>
     p' = p\<lparr>prevDepthMask := prevDepthMask p'\<rparr> \<and>
     (case depthMask t of None \<Rightarrow> True | Some d \<Rightarrow> depthMask_Equals d (prevDepthMask p'))"
  "setup_depthFunc t p = (cs, p') \<Longrightarrow>
     p' = p\<lparr>prevDepthFunc := prevDepthFunc p'\<rparr> \<and>
     (case depthFunc t of None \<Rightarrow> True | Some d \<Rightarrow> depthFunc_Equals d (prevDepthFunc p'))"
  "setup_viewport t p = (cs, p') \<Longrightarrow>
     p' = p\<lparr>prevViewport := prevViewport p'\<rparr> \<and>
     (case viewport t of None \<Rightarrow> True | Some w \<Rightarrow> Viewport_Equals w (prevViewport p'))"
  by (auto simp: setup_blendFunc_def blendFunc_Equals_def setup_cullFace_def cullFace_Equals_def
      setup_depthMask_def depthMask_Equals_def setup_depthFunc_def depthFunc_Equals_def
      setup_viewport_def Viewport_Equals_def split: option.splits if_splits)

lemma Technique_setup_settles:
  assumes run: "Technique_setup h t p = (calls, p', Returned ())"
    and fb: "framebuffer t \<noteq> None \<or> prevFrameBuffer p = None"
  shows "settled t p'"
proof -
  from run obtain cs1 p1 cs2 p2 cs3 p3 cs4 p4 cs5 p5 cs6 p6 cs7 p7 cs8 where
    s1: "setup_framebuffer h t p = (cs1, p1)"
    and s2: "setup_shader h t p1 = (cs2, p2, Returned ())"
    and s3: "setup_enables t p2 = (cs3, p3)"
    and s4: "setup_blendFunc t p3 = (cs4, p4)"
    and s5: "setup_cullFace t p4 = (cs5, p5)"
    and s6: "setup_depthMask t p5 = (cs6, p6)"
    and s7: "setup_depthFunc t p6 = (cs7, p7)"
    and s8: "setup_viewport t p7 = (cs8, p')"
    by (rule Technique_setup_sections)
  from setup_framebuffer_field [OF s1] obtain v1 where
    p1: "p1 = p\<lparr>prevFrameBuffer := v1\<rparr>"
    and v1: "case framebuffer t of None \<Rightarrow> v1 = prevFrameBuffer p | Some a \<Rightarrow> v1 = Some a"
    by blast
  have p2: "p2 = p1\<lparr>prevShader := shader t\<rparr>" by (rule setup_shader_field [OF s2])
  from setup_enables_field [OF s3] obtain v3 where
    p3: "p3 = p2\<lparr>prevEnables := v3\<rparr>"
    and v3: "list_all (index_bool v3) (enables t)" "fst ` set v3 \<subseteq> set (enables t)"
    by blast
  from setup_functions_field(1) [OF s4] obtain v4 where
    p4: "p4 = p3\<lparr>prevBlendFunc := v4\<rparr>"
    and v4: "case blendFunc t of None \<Rightarrow> True | Some b \<Rightarrow> blendFunc_Equals b v4"
    by blast
  from setup_functions_field(2) [OF s5] obtain v5 where
    p5: "p5 = p4\<lparr>prevCullFace := v5\<rparr>"
    and v5: "case cullFace t of None \<Rightarrow> True | Some c \<Rightarrow> cullFace_Equals c v5"
    by blast
  from setup_functions_field(3) [OF s6] obtain v6 where
    p6: "p6 = p5\<lparr>prevDepthMask := v6\<rparr>"
    and v6: "case depthMask t of None \<Rightarrow> True | Some d \<Rightarrow> depthMask_Equals d v6"
    by blast
  from setup_functions_field(4) [OF s7] obtain v7 where
    p7: "p7 = p6\<lparr>prevDepthFunc := v7\<rparr>"
    and v7: "case depthFunc t of None \<Rightarrow> True | Some d \<Rightarrow> depthFunc_Equals d v7"
    by blast
  from setup_functions_field(5) [OF s8] obtain v8 where
    p8: "p' = p7\<lparr>prevViewport := v8\<rparr>"
    and v8: "case viewport t of None \<Rightarrow> True | Some w \<Rightarrow> Viewport_Equals w v8"
    by blast
  have "v1 = framebuffer t"
    using v1 fb by (auto split: option.splits)
  with v3 v4 v5 v6 v7 v8 show ?thesis
    by (simp add: settled_def p8 p7 p6 p5 p4 p3 p2 p1 split: option.splits)
qed

text \<open>
  Apart from the unbind branch the cache is idempotent: when the technique has a
  framebuffer, or the snapshot records none, a second run right after a run that
  returned issues no device call and leaves the snapshot as it is.
\<close>

lemma Technique_setup_idempotent:
  assumes "Technique_setup h t p = (calls, p', Returned ())"
    and "framebuffer t \<noteq> None \<or> prevFrameBuffer p = None"
  shows "Technique_setup h t p' = ([], p', Returned ())"
  using assms by (intro settled_noop Technique_setup_settles)

lemma buildable_no_framebuffer: "buildable t \<Longrightarrow> framebuffer t = None"
  by (induction rule: buildable.induct)
    (simp_all add: zero_Technique_def NewTechnique_def Enable_def Technique_Shader_def
      Technique_Viewport_def BlendFunc_def CullFace_def DepthMask_def DepthFunc_def
      ClearColor_def)

lemma setup_framebuffer_none:
  "framebuffer t = None \<Longrightarrow> prevFrameBuffer p = None \<Longrightarrow> setup_framebuffer h t p = ([], p)"
  by (simp add: setup_framebuffer_def)

lemma setup_shader_frame:
  "setup_shader h t p = (cs, p', r) \<Longrightarrow> prevFrameBuffer p' = prevFrameBuffer p"
  by (auto simp: setup_shader_def split: option.splits if_splits)

lemma Technique_setup_panics:
  assumes "Technique_setup h t p = (calls, p', Panicked)"
  obtains cs1 p1 cs2 where
    "setup_framebuffer h t p = (cs1, p1)"
    "setup_shader h t p1 = (cs2, p', Panicked)"
    "calls = cs1 @ cs2"
  using assms unfolding Technique_setup_def
  by (auto split: prod.splits outcome.splits)

lemma setup_shader_panics:
  "setup_shader h t p = (cs, p', Panicked) \<Longrightarrow>
     cs = [] \<and> p' = p \<and> shader t = None \<and> prevShader p \<noteq> None"
  by (auto simp: setup_shader_def split: option.splits if_splits)

lemma Technique_setup_keeps_unbound:
  assumes none: "framebuffer t = None" and prev: "prevFrameBuffer p = None"
    and run: "Technique_setup h t p = (calls, p', r)"
  shows "prevFrameBuffer p' = None"
proof (cases r)
  case (Returned u)
  with run have "Technique_setup h t p = (calls, p', Returned ())" by simp
  from Technique_setup_settles [OF this] prev have "settled t p'" by simp
  with none show ?thesis by (simp add: settled_def)
next
  case Panicked
  with run obtain cs1 p1 cs2 where
    s1: "setup_framebuffer h t p = (cs1, p1)"
    and s2: "setup_shader h t p1 = (cs2, p', Panicked)"
    by (auto elim: Technique_setup_panics)
  from s1 none prev have "p1 = p" by (simp add: setup_framebuffer_none)
  with setup_shader_frame [OF s2] prev show ?thesis by simp
qed

lemma reachable_unbound: "reachable p \<Longrightarrow> prevFrameBuffer p = None"
proof (induction rule: reachable.induct)
  case initial
  show ?case by (simp add: initial_snapshot_def)
next
  case (run p t h calls p' r)
  from buildable_no_framebuffer [OF run.hyps(2)] run.IH run.hyps(3)
  show ?case by (rule Technique_setup_keeps_unbound)
qed

lemma Technique_setup_returns:
  assumes "shader t \<noteq> None \<or> prevShader p = shader t"
  shows "\<exists>calls p'. Technique_setup h t p = (calls, p', Returned ())"
proof -
  obtain cs1 p1 where s1: "setup_framebuffer h t p = (cs1, p1)"
    by (cases "setup_framebuffer h t p")
  from setup_framebuffer_field [OF s1] have "prevShader p1 = prevShader p" by auto
  with assms have "\<exists>cs2 p2. setup_shader h t p1 = (cs2, p2, Returned ())"
    by (auto simp: setup_shader_def split: option.splits)
  then obtain cs2 p2 where s2: "setup_shader h t p1 = (cs2, p2, Returned ())"
    by blast
  show ?thesis
    by (simp add: Technique_setup_def s1 s2 split: prod.splits)
qed

lemma Technique_setup_panic_repeats:
  assumes none: "framebuffer t = None" and prev: "prevFrameBuffer p = None"
    and run: "Technique_setup h t p = (calls, p', Panicked)"
  shows "calls = [] \<and> p' = p"
proof -
  from run obtain cs1 p1 cs2 where
    s1: "setup_framebuffer h t p = (cs1, p1)"
    and s2: "setup_shader h t p1 = (cs2, p', Panicked)"
    and calls: "calls = cs1 @ cs2"
    by (rule Technique_setup_panics)
  from s1 none prev have "cs1 = []" "p1 = p" by (simp_all add: setup_framebuffer_none)
  with setup_shader_panics [OF s2] calls show ?thesis by simp
qed

text \<open>
  C2.  For every buildable technique and every reachable snapshot: whatever the first
  run did (its calls, the snapshot it left, and whether it returned or panicked on a
  missing shader), the run that follows it for the same technique issues no device call
  at all, leaves the snapshot as it is and ends the same way.  The first run returns
  whenever the technique has a shader or the snapshot already records the same shader.
\<close>

theorem Technique_setup_twice:
  assumes "reachable p" and "buildable t"
  shows "(\<forall>calls p' r. Technique_setup h t p = (calls, p', r) \<longrightarrow>
            Technique_setup h t p' = ([], p', r)) \<and>
         (shader t \<noteq> None \<or> prevShader p = shader t \<longrightarrow>
            (\<exists>calls p'. Technique_setup h t p = (calls, p', Returned ())))"
proof (intro conjI allI impI)
  note none = buildable_no_framebuffer [OF assms(2)]
  note prev = reachable_unbound [OF assms(1)]
  fix calls p' r
  assume run: "Technique_setup h t p = (calls, p', r)"
  show "Technique_setup h t p' = ([], p', r)"
  proof (cases r)
    case (Returned u)
    with run have "Technique_setup h t p = (calls, p', Returned ())" by simp
    from Technique_setup_idempotent [OF this] prev Returned show ?thesis by simp
  next
    case Panicked
    with run have again: "Technique_setup h t p = (calls, p', Panicked)" by simp
    from Technique_setup_panic_repeats [OF none prev again] have "calls = []" "p' = p"
      by simp_all
    with again Panicked show ?thesis by simp
  qed
next
  assume "shader t \<noteq> None \<or> prevShader p = shader t"
  then show "\<exists>calls p'. Technique_setup h t p = (calls, p', Returned ())"
    by (rule Technique_setup_returns)
qed

lemma plain_run:
  "Technique_setup example_heap plain_technique initial_snapshot =
     ([gl_UseProgram 7, gl_BlendFunc GL_ONE GL_ZERO, gl_CullFace GL_BACK, gl_DepthMask True,
       gl_DepthFunc GL_LESS],
      stale_snapshot\<lparr>prevFrameBuffer := None\<rparr>, Returned ())"
  by (simp add: section_defs example_technique_defs stale_snapshot_def)

lemma plain_buildable: "buildable plain_technique"
proof -
  have "plain_technique = Technique_Shader NewTechnique (Some 1)"
    by (simp add: plain_technique_def Technique_Shader_def)
  moreover have "buildable (Technique_Shader NewTechnique (Some 1))"
    by (intro buildable.Shader buildable.new)
  ultimately show ?thesis by (simp only:)
qed

theorem Technique_setup_twice_witness:
  "reachable initial_snapshot \<and> buildable plain_technique \<and>
   Technique_setup example_heap plain_technique initial_snapshot =
     ([gl_UseProgram 7, gl_BlendFunc GL_ONE GL_ZERO, gl_CullFace GL_BACK, gl_DepthMask True,
       gl_DepthFunc GL_LESS],
      stale_snapshot\<lparr>prevFrameBuffer := None\<rparr>, Returned ()) \<and>
   Technique_setup example_heap plain_technique (stale_snapshot\<lparr>prevFrameBuffer := None\<rparr>) =
     ([], stale_snapshot\<lparr>prevFrameBuffer := None\<rparr>, Returned ())"
proof -
  note r = Technique_setup_twice [OF reachable.initial plain_buildable, of example_heap]
  from r plain_run have "Technique_setup example_heap plain_technique
      (stale_snapshot\<lparr>prevFrameBuffer := None\<rparr>) =
      ([], stale_snapshot\<lparr>prevFrameBuffer := None\<rparr>, Returned ())"
    by blast
  with plain_run reachable.initial plain_buildable show ?thesis by simp
qed

text \<open>
  The branch that unbinds the framebuffer does not reset \<open>prevFrameBuffer\<close>.  From a
  snapshot that records a framebuffer, a technique without one would unbind on every
  run; by \<open>reachable_unbound\<close> no run of a buildable technique leaves such a snapshot.
\<close>

lemma unbind_branch_repeats:
  "Technique_setup example_heap plain_technique bound_snapshot =
     ([gl_BindFramebuffer GL_FRAMEBUFFER 0, gl_UseProgram 7, gl_BlendFunc GL_ONE GL_ZERO,
       gl_CullFace GL_BACK, gl_DepthMask True, gl_DepthFunc GL_LESS],
      stale_snapshot, Returned ()) \<and>
   Technique_setup example_heap plain_technique stale_snapshot =
     ([gl_BindFramebuffer GL_FRAMEBUFFER 0], stale_snapshot, Returned ())"
  by (simp add: section_defs example_technique_defs bound_snapshot_def stale_snapshot_def)

text \<open>What a run that returned did to the capabilities.\<close>

lemma reconciliation_of_run:
  assumes "Technique_setup h t p = (calls, p', Returned ())"
  shows
    "(\<forall>k. index_bool (prevEnables p) k \<and> k \<notin> set (enables t) \<longrightarrow>
         gl_Disable k \<in> set calls \<and> map_of (prevEnables p') k = None) \<and>
     (\<forall>k. k \<in> set (enables t) \<and> \<not> index_bool (prevEnables p) k \<longrightarrow>
         gl_Enable k \<in> set calls \<and> index_bool (prevEnables p') k) \<and>
     (\<forall>k. index_bool (prevEnables p) k \<and> k \<in> set (enables t) \<longrightarrow>
         gl_Enable k \<notin> set calls \<and> gl_Disable k \<notin> set calls \<and>
         index_bool (prevEnables p') k) \<and>
     {k. index_bool (prevEnables p') k} = set (enables t)"
proof (intro conjI allI impI)
  note r = Technique_setup_enables [OF assms]
  fix k
  {
    assume a: "index_bool (prevEnables p) k \<and> k \<notin> set (enables t)"
    then show "gl_Disable k \<in> set calls" using r(2) [of k] index_bool_keys by blast
    from a have "k \<notin> fst ` set (prevEnables p')" using r(4) by simp
    then show "map_of (prevEnables p') k = None" by (simp add: map_of_eq_None_iff)
  next
    assume a: "k \<in> set (enables t) \<and> \<not> index_bool (prevEnables p) k"
    then show "gl_Enable k \<in> set calls" using r(1) [of k] by simp
    from a show "index_bool (prevEnables p') k" using r(3) [of k] by simp
  next
    assume a: "index_bool (prevEnables p) k \<and> k \<in> set (enables t)"
    then show "gl_Enable k \<notin> set calls" using r(1) [of k] by simp
    from a show "gl_Disable k \<notin> set calls" using r(2) [of k] by simp
    from a show "index_bool (prevEnables p') k" using r(3) [of k] by simp
  }
next
  show "{k. index_bool (prevEnables p') k} = set (enables t)"
    using Technique_setup_enables(3) [OF assms] by auto
qed

text \<open>
  C5 as stated fails for a technique without a shader: after a technique with a shader
  that enabled blending, a technique from the constructor that requests depth testing
  panics in "use shader" before any capability is touched.  Blending stays enabled and
  recorded, and depth testing is neither enabled nor recorded.
\<close>

theorem capability_reconciliation_counterexample:
  "Technique_setup example_heap blend_technique initial_snapshot =
     ([gl_UseProgram 7, gl_Enable GL_BLEND, gl_BlendFunc GL_ONE GL_ZERO, gl_CullFace GL_BACK,
       gl_DepthMask True, gl_DepthFunc GL_LESS],
      blend_snapshot, Returned ()) \<and>
   prevEnables blend_snapshot = [(GL_BLEND, True)] \<and>
   enables shaderless_technique = [GL_DEPTH_TEST] \<and>
   GL_BLEND \<noteq> GL_DEPTH_TEST \<and>
   Technique_setup example_heap shaderless_technique blend_snapshot =
     ([], blend_snapshot, Panicked)"
  by (simp add: section_defs example_technique_defs blend_technique_def
      shaderless_technique_def blend_snapshot_def stale_snapshot_def GL_BLEND_def
      GL_DEPTH_TEST_def)

text \<open>
  C5, as amended.  For every snapshot and every technique that has a shader, or whose
  shader is the one the snapshot records, the cache run returns and reconciles the
  capabilities in full: a capability enabled in the snapshot and absent from the request
  is disabled and leaves the snapshot; a requested capability not enabled in the
  snapshot is enabled and enters it; a capability in both gets no call and stays; and
  the capabilities enabled afterwards are exactly the requested ones.
\<close>

theorem capability_reconciliation:
  assumes "shader t \<noteq> None \<or> prevShader p = shader t"
  shows
    "\<exists>calls p'. Technique_setup h t p = (calls, p', Returned ()) \<and>
       (\<forall>k. index_bool (prevEnables p) k \<and> k \<notin> set (enables t) \<longrightarrow>
           gl_Disable k \<in> set calls \<and> map_of (prevEnables p') k = None) \<and>
       (\<forall>k. k \<in> set (enables t) \<and> \<not> index_bool (prevEnables p) k \<longrightarrow>
           gl_Enable k \<in> set calls \<and> index_bool (prevEnables p') k) \<and>
       (\<forall>k. index_bool (prevEnables p) k \<and> k \<in> set (enables t) \<longrightarrow>
           gl_Enable k \<notin> set calls \<and> gl_Disable k \<notin> set calls \<and>
           index_bool (prevEnables p') k) \<and>
       {k. index_bool (prevEnables p') k} = set (enables t)"
proof -
  from Technique_setup_returns [OF assms] obtain calls p' where
    run: "Technique_setup h t p = (calls, p', Returned ())"
    by blast
  from run reconciliation_of_run [OF run] show ?thesis by blast
qed

lemma depth_cull_run:
  "Technique_setup example_heap depth_cull_technique blend_depth_snapshot =
     ([gl_UseProgram 7, gl_Enable GL_CULL_FACE, gl_Disable GL_BLEND, gl_BlendFunc GL_ONE GL_ZERO,
       gl_CullFace GL_BACK, gl_DepthMask True, gl_DepthFunc GL_LESS],
      stale_snapshot\<lparr>prevFrameBuffer := None,
        prevEnables := [(GL_DEPTH_TEST, True), (GL_CULL_FACE, True)]\<rparr>,
      Returned ())"
  by (simp add: section_defs example_technique_defs depth_cull_technique_def blend_depth_snapshot_def
      stale_snapshot_def GL_DEPTH_TEST_def GL_BLEND_def GL_CULL_FACE_def)


theorem capability_reconciliation_witness:
  "shader depth_cull_technique \<noteq> None \<and>
   index_bool (prevEnables blend_depth_snapshot) GL_BLEND \<and>
   GL_BLEND \<notin> set (enables depth_cull_technique) \<and>
   GL_CULL_FACE \<in> set (enables depth_cull_technique) \<and>
   \<not> index_bool (prevEnables blend_depth_snapshot) GL_CULL_FACE \<and>
   index_bool (prevEnables blend_depth_snapshot) GL_DEPTH_TEST \<and>
   GL_DEPTH_TEST \<in> set (enables depth_cull_technique) \<and>
   (\<exists>calls p'. Technique_setup example_heap depth_cull_technique blend_depth_snapshot =
      (calls, p', Returned ()) \<and>
      gl_Disable GL_BLEND \<in> set calls \<and> map_of (prevEnables p') GL_BLEND = None \<and>
      gl_Enable GL_CULL_FACE \<in> set calls \<and> index_bool (prevEnables p') GL_CULL_FACE \<and>
      gl_Enable GL_DEPTH_TEST \<notin> set calls \<and> gl_Disable GL_DEPTH_TEST \<notin> set calls \<and>
      index_bool (prevEnables p') GL_DEPTH_TEST \<and>
      {k. index_bool (prevEnables p') k} = {GL_DEPTH_TEST, GL_CULL_FACE})"
proof -
  have sh: "shader depth_cull_technique \<noteq> None"
    by (simp add: depth_cull_technique_def example_technique_defs)
  have facts:
    "index_bool (prevEnables blend_depth_snapshot) GL_BLEND"
    "GL_BLEND \<notin> set (enables depth_cull_technique)"
    "GL_CULL_FACE \<in> set (enables depth_cull_technique)"
    "\<not> index_bool (prevEnables blend_depth_snapshot) GL_CULL_FACE"
    "index_bool (prevEnables blend_depth_snapshot) GL_DEPTH_TEST"
    "GL_DEPTH_TEST \<in> set (enables depth_cull_technique)"
    by (simp_all add: blend_depth_snapshot_def depth_cull_technique_def example_technique_defs
        index_bool_def GL_BLEND_def GL_CULL_FACE_def GL_DEPTH_TEST_def)
  have requested: "set (enables depth_cull_technique) = {GL_DEPTH_TEST, GL_CULL_FACE}"
    by (auto simp: depth_cull_technique_def example_technique_defs)
  from capability_reconciliation [of depth_cull_technique blend_depth_snapshot example_heap] sh
  obtain calls p' where
    run: "Technique_setup example_heap depth_cull_technique blend_depth_snapshot =
      (calls, p', Returned ())"
    and off: "\<forall>k. index_bool (prevEnables blend_depth_snapshot) k \<and>
        k \<notin> set (enables depth_cull_technique) \<longrightarrow>
        gl_Disable k \<in> set calls \<and> map_of (prevEnables p') k = None"
    and on: "\<forall>k. k \<in> set (enables depth_cull_technique) \<and>
        \<not> index_bool (prevEnables blend_depth_snapshot) k \<longrightarrow>
        gl_Enable k \<in> set calls \<and> index_bool (prevEnables p') k"
    and both: "\<forall>k. index_bool (prevEnables blend_depth_snapshot) k \<and>
        k \<in> set (enables depth_cull_technique) \<longrightarrow>
        gl_Enable k \<notin> set calls \<and> gl_Disable k \<notin> set calls \<and>
        index_bool (prevEnables p') k"
    and final: "{k. index_bool (prevEnables p') k} = set (enables depth_cull_technique)"
    by blast
  from off facts(1,2) have a: "gl_Disable GL_BLEND \<in> set calls"
    "map_of (prevEnables p') GL_BLEND = None" by blast+
  from on facts(3,4) have b: "gl_Enable GL_CULL_FACE \<in> set calls"
    "index_bool (prevEnables p') GL_CULL_FACE" by blast+
  from both facts(5,6) have c: "gl_Enable GL_DEPTH_TEST \<notin> set calls"
    "gl_Disable GL_DEPTH_TEST \<notin> set calls" "index_bool (prevEnables p') GL_DEPTH_TEST"
    by blast+
  from final requested have d: "{k. index_bool (prevEnables p') k} = {GL_DEPTH_TEST, GL_CULL_FACE}"
    by simp
  from run a b c d have "\<exists>calls p'. Technique_setup example_heap depth_cull_technique
      blend_depth_snapshot = (calls, p', Returned ()) \<and>
      gl_Disable GL_BLEND \<in> set calls \<and> map_of (prevEnables p') GL_BLEND = None \<and>
      gl_Enable GL_CULL_FACE \<in> set calls \<and> index_bool (prevEnables p') GL_CULL_FACE \<and>
      gl_Enable GL_DEPTH_TEST \<notin> set calls \<and> gl_Disable GL_DEPTH_TEST \<notin> set calls \<and>
      index_bool (prevEnables p') GL_DEPTH_TEST \<and>
      {k. index_bool (prevEnables p') k} = {GL_DEPTH_TEST, GL_CULL_FACE}"
    by blast
  with sh facts show ?thesis by blast
qed

section \<open>Properties of program reflection\<close>

lemma those_nth:
  "those xs = Some ys \<Longrightarrow>
     length ys = length xs \<and> (\<forall>i<length xs. xs ! i = Some (ys ! i))"
proof (induction xs arbitrary: ys)
  case Nil
  then show ?case by simp
next
  case (Cons x xs)
  then obtain y zs where x: "x = Some y" and zs: "those xs = Some zs" and ys: "ys = y # zs"
    by (auto split: option.splits)
  from Cons.IH [OF zs] x ys show ?case
    by (auto simp: nth_Cons split: nat.splits)
qed

lemma uniform_loop_keeps:
  "uniform_loop q idxs ds = Some ds' \<Longrightarrow> ds name \<noteq> None \<Longrightarrow> ds' name \<noteq> None"
proof (induction idxs arbitrary: ds)
  case Nil
  then show ?case by simp
next
  case (Cons index rest)
  then show ?case
    by (auto simp: Let_def split: if_splits)
qed

lemma uniform_loop_adds:
  "uniform_loop q idxs ds = Some ds' \<Longrightarrow> i \<in> set idxs \<Longrightarrow>
     parentBlockIndices q ! i = - 1 \<Longrightarrow> ds' (uniformNames q ! i) \<noteq> None"
proof (induction idxs arbitrary: ds)
  case Nil
  then show ?case by simp
next
  case (Cons index rest)
  show ?case
  proof (cases "i = index")
    case True
    with Cons.prems obtain ds1 where
      "uniform_loop q rest ds1 = Some ds'" "ds1 (uniformNames q ! i) \<noteq> None"
      by (auto simp: Let_def split: if_splits)
    then show ?thesis by (rule uniform_loop_keeps)
  next
    case False
    with Cons.prems have "i \<in> set rest" by simp
    moreover from Cons.prems obtain ds1 where "uniform_loop q rest ds1 = Some ds'"
      by (auto simp: Let_def split: if_splits)
    ultimately show ?thesis using Cons.IH Cons.prems(3) by blast
  qed
qed

lemma uniform_loop_only:
  "uniform_loop q idxs ds = Some ds' \<Longrightarrow> ds' name = Some d \<Longrightarrow>
     ds name = Some d \<or>
     (\<exists>i\<in>set idxs. parentBlockIndices q ! i = - 1 \<and> uniformNames q ! i = name)"
proof (induction idxs arbitrary: ds)
  case Nil
  then show ?case by simp
next
  case (Cons index rest)
  show ?case
  proof (cases "parentBlockIndices q ! index = - 1")
    case True
    with Cons.prems have loop: "uniform_loop q rest
        (ds(uniformNames q ! index \<mapsto>
           \<lparr>UniformDescriptor.Name = butlast (uniformNames q ! index),
            Type = uniformTypes q ! index, Count = uniformCounts q ! index,
            Location = uniformLocations q ! index\<rparr>)) = Some ds'"
      by (auto simp: Let_def split: if_splits)
    from Cons.IH [OF loop Cons.prems(2)] True show ?thesis
      by (auto split: if_splits)
  next
    case False
    with Cons.prems have "uniform_loop q rest ds = Some ds'" by simp
    from Cons.IH [OF this Cons.prems(2)] show ?thesis by auto
  qed
qed

lemma offsets_fold:
  "fold (\<lambda>i offsets.
           if parentBlockIndices q ! i = of_nat index
           then offsets(uniformNames q ! i \<mapsto> uniformOffsets q ! i)
           else offsets) idxs acc key \<noteq> None \<longleftrightarrow>
     acc key \<noteq> None \<or>
     (\<exists>i\<in>set idxs. parentBlockIndices q ! i = of_nat index \<and> uniformNames q ! i = key)"
  by (induction idxs arbitrary: acc) auto

lemma block_offsets_keys:
  "block_offsets q index key \<noteq> None \<longleftrightarrow>
     (\<exists>i<length (parentBlockIndices q).
        parentBlockIndices q ! i = of_nat index \<and> uniformNames q ! i = key)"
  unfolding block_offsets_def offsets_fold by auto

lemma block_loop_only:
  "block_loop sid q blockNames blockSizes al idxs bs = (cs, bs') \<Longrightarrow> bs' bname = Some b \<Longrightarrow>
     bs bname = Some b \<or>
     (\<exists>j\<in>set idxs. Index b = of_nat j \<and> Offsets b = block_offsets q j)"
proof (induction idxs arbitrary: bs cs)
  case Nil
  then show ?case by simp
next
  case (Cons index rest)
  from Cons.prems(1) obtain cs0 where loop: "block_loop sid q blockNames blockSizes al rest
      (bs(blockNames ! index \<mapsto>
         \<lparr>UniformBlockDescriptor.Name = blockNames ! index, Index = of_nat index,
          Size = blockSizes ! index, Offsets = block_offsets q index,
          Alignment = al\<rparr>)) = (cs0, bs')"
    by (auto split: prod.splits)
  from Cons.IH [OF loop Cons.prems(2)] show ?case
    by (auto split: if_splits)
qed

lemma block_loop_keeps:
  "block_loop sid q blockNames blockSizes al idxs bs = (cs, bs') \<Longrightarrow> bs bname \<noteq> None \<Longrightarrow>
     bs' bname \<noteq> None"
proof (induction idxs arbitrary: bs cs)
  case Nil
  then show ?case by simp
next
  case (Cons index rest)
  then show ?case by (auto split: prod.splits)
qed

lemma block_loop_adds:
  "block_loop sid q blockNames blockSizes al idxs bs = (cs, bs') \<Longrightarrow> j \<in> set idxs \<Longrightarrow>
     bs' (blockNames ! j) \<noteq> None"
proof (induction idxs arbitrary: bs cs)
  case Nil
  then show ?case by simp
next
  case (Cons index rest)
  from Cons.prems(1) obtain cs0 bs1 where
    loop: "block_loop sid q blockNames blockSizes al rest bs1 = (cs0, bs')"
    and bs1: "bs1 (blockNames ! index) \<noteq> None"
    by (auto split: prod.splits)
  show ?case
  proof (cases "j = index")
    case True
    with block_loop_keeps [OF loop] bs1 show ?thesis by simp
  next
    case False
    with Cons.prems(2) have "j \<in> set rest" by simp
    with Cons.IH loop show ?thesis by blast
  qed
qed


lemma toString_strips_last:
  "toString (bytes @ [terminator]) = Some (map (\<lambda>v. char_of (unat v)) bytes)"
  by (simp add: toString_def)

lemma queryUniforms_parts:
  assumes "queryUniforms dev s = Some (s', cs)"
  obtains names q blockNames where
    "queryUniformNames dev = Some names"
    "q = \<lparr>uniformNames = names, uniformTypes = queryUniformTypes dev,
          uniformCounts = queryUniformCounts dev,
          parentBlockIndices = queryParentBlockIndices dev,
          uniformOffsets = queryUniformOffsets dev,
          uniformLocations = queryUniformLocations dev names\<rparr>"
    "uniform_loop q [0..<length (active_uniforms dev)] Map.empty = Some (descriptors s')"
    "queryUniformBlockNames dev = Some blockNames"
    "block_loop (Shader.id s) q blockNames (queryUniformBlockSizes dev)
       (buffer_offset_alignment dev) [0..<length (active_blocks dev)] Map.empty =
       (cs, blockDescriptors s')"
  using assms unfolding queryUniforms_def
  by (auto simp: Let_def split: option.splits prod.splits)

text \<open>
  C4, as amended.  Whenever reflection returns: every uniform outside a block has a
  descriptor stored under its device-reported name without the last byte (the null
  terminator), and only such names are keys; every block has a descriptor under its
  name stripped the same way; and the keys of a block descriptor's offsets are exactly
  the names, stripped the same way, of the uniforms whose block index is the
  descriptor's index.  Stripping removes exactly the last byte.
\<close>

theorem reflection_keys:
  assumes "queryUniforms dev s = Some (s', cs)"
  shows
    "(\<forall>u\<in>set (active_uniforms dev). block_index u = - 1 \<longrightarrow>
        (\<exists>name. toString (name_buf u) = Some name \<and> descriptors s' name \<noteq> None)) \<and>
     (\<forall>name d. descriptors s' name = Some d \<longrightarrow>
        (\<exists>u\<in>set (active_uniforms dev). block_index u = - 1 \<and>
           toString (name_buf u) = Some name)) \<and>
     (\<forall>blk\<in>set (active_blocks dev).
        \<exists>bname. toString (block_name_buf blk) = Some bname \<and>
          blockDescriptors s' bname \<noteq> None) \<and>
     (\<forall>bname b key. blockDescriptors s' bname = Some b \<longrightarrow>
        (Offsets b key \<noteq> None \<longleftrightarrow>
           (\<exists>u\<in>set (active_uniforms dev). block_index u = Index b \<and>
              toString (name_buf u) = Some key))) \<and>
     (\<forall>bytes terminator.
        toString (bytes @ [terminator]) = Some (map (\<lambda>v. char_of (unat v)) bytes))"
proof -
  let ?us = "active_uniforms dev" and ?bl = "active_blocks dev"
  from assms obtain names q blockNames where
    names: "queryUniformNames dev = Some names"
    and q: "q = \<lparr>uniformNames = names, uniformTypes = queryUniformTypes dev,
          uniformCounts = queryUniformCounts dev,
          parentBlockIndices = queryParentBlockIndices dev,
          uniformOffsets = queryUniformOffsets dev,
          uniformLocations = queryUniformLocations dev names\<rparr>"
    and uloop: "uniform_loop q [0..<length ?us] Map.empty = Some (descriptors s')"
    and bnames: "queryUniformBlockNames dev = Some blockNames"
    and bloop: "block_loop (Shader.id s) q blockNames (queryUniformBlockSizes dev)
       (buffer_offset_alignment dev) [0..<length ?bl] Map.empty = (cs, blockDescriptors s')"
    by (rule queryUniforms_parts)
  have name_at: "toString (name_buf (?us ! i)) = Some (uniformNames q ! i)" if "i < length ?us" for i
    using those_nth [OF names [unfolded queryUniformNames_def]] that q by simp
  have parent_at: "parentBlockIndices q ! i = block_index (?us ! i)" if "i < length ?us" for i
    using that q by (simp add: queryParentBlockIndices_def)
  have parents_len: "length (parentBlockIndices q) = length ?us"
    using q by (simp add: queryParentBlockIndices_def)
  have bname_at: "toString (block_name_buf (?bl ! j)) = Some (blockNames ! j)" if "j < length ?bl" for j
    using those_nth [OF bnames [unfolded queryUniformBlockNames_def]] that by simp
  have standalone: "\<exists>name. toString (name_buf u) = Some name \<and> descriptors s' name \<noteq> None"
    if "u \<in> set ?us" "block_index u = - 1" for u
  proof -
    from that(1) obtain i where i: "i < length ?us" "?us ! i = u"
      by (auto simp: in_set_conv_nth)
    with that(2) have "parentBlockIndices q ! i = - 1" by (simp add: parent_at)
    with uniform_loop_adds [OF uloop, of i] i have "descriptors s' (uniformNames q ! i) \<noteq> None"
      by simp
    with name_at [OF i(1)] i(2) show ?thesis by auto
  qed
  have only: "\<exists>u\<in>set ?us. block_index u = - 1 \<and> toString (name_buf u) = Some name"
    if "descriptors s' name = Some d" for name d
  proof -
    from uniform_loop_only [OF uloop that] obtain i where
      i: "i < length ?us" "parentBlockIndices q ! i = - 1" "uniformNames q ! i = name"
      by auto
    then have "block_index (?us ! i) = - 1" "toString (name_buf (?us ! i)) = Some name"
      using parent_at name_at by auto
    with i(1) show ?thesis using nth_mem by blast
  qed
  have blocks: "\<exists>bname. toString (block_name_buf blk) = Some bname \<and>
      blockDescriptors s' bname \<noteq> None" if "blk \<in> set ?bl" for blk
  proof -
    from that obtain j where j: "j < length ?bl" "?bl ! j = blk"
      by (auto simp: in_set_conv_nth)
    with block_loop_adds [OF bloop, of j] have "blockDescriptors s' (blockNames ! j) \<noteq> None"
      by simp
    with bname_at [OF j(1)] j(2) show ?thesis by auto
  qed
  have members: "Offsets b key \<noteq> None \<longleftrightarrow>
      (\<exists>u\<in>set ?us. block_index u = Index b \<and> toString (name_buf u) = Some key)"
    if "blockDescriptors s' bname = Some b" for bname b key
  proof -
    from block_loop_only [OF bloop that] obtain j where
      j: "Index b = of_nat j" "Offsets b = block_offsets q j"
      by auto
    have "Offsets b key \<noteq> None \<longleftrightarrow>
        (\<exists>i<length (parentBlockIndices q).
           parentBlockIndices q ! i = of_nat j \<and> uniformNames q ! i = key)"
      using j(2) by (simp only: block_offsets_keys)
    also have "\<dots> \<longleftrightarrow>
        (\<exists>i<length ?us. block_index (?us ! i) = Index b \<and>
           toString (name_buf (?us ! i)) = Some key)"
      using j(1) parents_len parent_at name_at by auto
    also have "\<dots> \<longleftrightarrow> (\<exists>u\<in>set ?us. block_index u = Index b \<and> toString (name_buf u) = Some key)"
      by (metis in_set_conv_nth)
    finally show ?thesis .
  qed
  from standalone only blocks members toString_strips_last show ?thesis
    by (intro conjI ballI allI impI) blast+
qed


lemmas query_defs = queryUniforms_def queryUniformNames_def queryUniformTypes_def
  queryUniformCounts_def queryParentBlockIndices_def queryUniformOffsets_def
  queryUniformLocations_def queryUniformBlockNames_def queryUniformBlockSizes_def
  toString_def toUint32_def c_str_def block_offsets_def

lemma example_reflection:
  "queryUniforms example_program example_shader =
     Some (reflected_shader, [gl_UniformBlockBinding 7 0 0])"
  by (simp add: query_defs example_program_def color_uniform_def tint_uniform_def
      reflected_shader_def reflected_block_def example_shader_def char_of_def bit_Suc_0_iff
      upt_rec)

text \<open>
  C4 as stated fails on the example program.  The device reports "color" and "tint",
  each followed by the null terminator.  The descriptor of "color" carries the name
  "colo", not "color"; and the offset of "tint" is recorded under "tint", not under the
  unstripped name.
\<close>

theorem reflection_names_counterexample:
  "queryUniforms example_program example_shader =
     Some (reflected_shader, [gl_UniformBlockBinding 7 0 0]) \<and>
   toString (name_buf color_uniform) = Some ''color'' \<and>
   descriptors reflected_shader ''color'' =
     Some \<lparr>UniformDescriptor.Name = ''colo'', Type = 0x8B52, Count = 1, Location = 4\<rparr> \<and>
   ''colo'' \<noteq> ''color'' \<and>
   blockDescriptors reflected_shader ''Mat'' = Some reflected_block \<and>
   name_buf tint_uniform = [0x74, 0x69, 0x6E, 0x74, 0x00] \<and>
   Offsets reflected_block [CHR ''t'', CHR ''i'', CHR ''n'', CHR ''t'', CHR 0x00] = None \<and>
   Offsets reflected_block ''tint'' = Some 16"
  by (simp add: example_reflection)
    (simp add: toString_def color_uniform_def tint_uniform_def reflected_shader_def
      reflected_block_def char_of_def bit_Suc_0_iff)

theorem reflection_keys_witness:
  "queryUniforms example_program example_shader =
     Some (reflected_shader, [gl_UniformBlockBinding 7 0 0]) \<and>
   color_uniform \<in> set (active_uniforms example_program) \<and>
   block_index color_uniform = - 1 \<and>
   (\<exists>name. toString (name_buf color_uniform) = Some name \<and>
      descriptors reflected_shader name \<noteq> None) \<and>
   blockDescriptors reflected_shader ''Mat'' = Some reflected_block \<and>
   (Offsets reflected_block ''tint'' \<noteq> None \<longleftrightarrow>
      (\<exists>u\<in>set (active_uniforms example_program).
         block_index u = Index reflected_block \<and> toString (name_buf u) = Some ''tint''))"
proof -
  note r = reflection_keys [OF example_reflection]
  have color: "color_uniform \<in> set (active_uniforms example_program)"
    "block_index color_uniform = - 1"
    by (simp_all add: example_program_def color_uniform_def)
  have block: "blockDescriptors reflected_shader ''Mat'' = Some reflected_block"
    by (simp add: reflected_shader_def)
  from r color have "\<exists>name. toString (name_buf color_uniform) = Some name \<and>
      descriptors reflected_shader name \<noteq> None"
    by blast
  moreover from r block have "Offsets reflected_block ''tint'' \<noteq> None \<longleftrightarrow>
      (\<exists>u\<in>set (active_uniforms example_program).
         block_index u = Index reflected_block \<and> toString (name_buf u) = Some ''tint'')"
    by blast
  ultimately show ?thesis using example_reflection color block by blast
qed

end
